theory Spec2Isabelle
  imports Complex_Main "HOL-Library.Multiset"
begin

text \<open>
  The ETL service of clinical-api-etl: the stages and the orchestrator of
  \<^verbatim>\<open>src/etl-service/src/data_processing.py\<close> and the job submission of
  \<^verbatim>\<open>src/etl-service/src/main.py\<close>, as functions of HOL, and the properties that the
  specification states of them.
\<close>

section \<open>Python values: exceptions and results\<close>

text \<open>
  The exception classes that the stages of \<^verbatim>\<open>data_processing.py\<close> name in their
  docstrings or can raise.  All of them are subclasses of Python's \<^verbatim>\<open>Exception\<close>, the
  class that the handler of \<^verbatim>\<open>etl_pipeline\<close> catches.  A function that may raise returns
  \<open>exn + 'a\<close>, with \<open>Inl\<close> for the exception.
\<close>

datatype exn =
    FileNotFoundError string
  | EmptyDataError string
  | ParserError string
  | ValueError string
  | TypeError string
  | KeyError string
  | AssertionError

text \<open>\<^verbatim>\<open>str(e)\<close>: the text of the exception.  A bare \<^verbatim>\<open>assert\<close> carries no text, and a
  \<^verbatim>\<open>KeyError\<close> prints the repr of its key.\<close>

fun str_exn :: "exn \<Rightarrow> string" where
  "str_exn (FileNotFoundError m) = m"
| "str_exn (EmptyDataError m) = m"
| "str_exn (ParserError m) = m"
| "str_exn (ValueError m) = m"
| "str_exn (TypeError m) = m"
| "str_exn (KeyError k) = [CHR 0x27] @ k @ [CHR 0x27]"
| "str_exn AssertionError = []"

definition bnd :: "exn + 'a \<Rightarrow> ('a \<Rightarrow> exn + 'b) \<Rightarrow> exn + 'b" where
  "bnd m f = (case m of Inl e \<Rightarrow> Inl e | Inr x \<Rightarrow> f x)"

definition py_assert :: "bool \<Rightarrow> exn + unit" where
  "py_assert b = (if b then Inr () else Inl AssertionError)"

section \<open>Record sets: the DataFrame\<close>

text \<open>
  A cell of a DataFrame: a missing value (\<^verbatim>\<open>NaN\<close>, \<^verbatim>\<open>None\<close>, \<^verbatim>\<open>NaT\<close>, \<^verbatim>\<open>pd.NA\<close>: what
  \<^verbatim>\<open>isna\<close> accepts), a string, a number, or an instant in nanoseconds since the epoch.
  A finite double is its real value, so that the comparisons \<open>\<le>\<close> of the source are the
  comparisons of \<open>real\<close>; an integer and the float equal to it are the same number.
\<close>

datatype cell = NA | Str string | Num real | Ts int

text \<open>The column dtypes that the source reads, produces or asserts.\<close>

datatype dtype =
    Object
  | NpInt64
  | NpFloat64
  | DatetimeNaive
  | DatetimeUTC
  | DatetimeTz
  | StringPython
  | Int64
  | Float64

text \<open>The eight declared columns (docstring of \<^verbatim>\<open>transform_data\<close>).\<close>

datatype col =
    StudyId | ParticipantId | MeasurementType | Value
  | Unit | Timestamp | SiteId | QualityScore

fun col_name :: "col \<Rightarrow> string" where
  "col_name StudyId = ''study_id''"
| "col_name ParticipantId = ''participant_id''"
| "col_name MeasurementType = ''measurement_type''"
| "col_name Value = ''value''"
| "col_name Unit = ''unit''"
| "col_name Timestamp = ''timestamp''"
| "col_name SiteId = ''site_id''"
| "col_name QualityScore = ''quality_score''"

text \<open>A row holds one cell for each declared column, and the cells of any further
  columns of the file in \<open>others\<close>.\<close>

record row =
  study_id :: cell
  participant_id :: cell
  measurement_type :: cell
  value' :: cell
  unit' :: cell
  timestamp :: cell
  site_id :: cell
  quality_score :: cell
  others :: "cell list"

fun get :: "col \<Rightarrow> row \<Rightarrow> cell" where
  "get StudyId r = study_id r"
| "get ParticipantId r = participant_id r"
| "get MeasurementType r = measurement_type r"
| "get Value r = value' r"
| "get Unit r = unit' r"
| "get Timestamp r = timestamp r"
| "get SiteId r = site_id r"
| "get QualityScore r = quality_score r"

fun put :: "col \<Rightarrow> cell \<Rightarrow> row \<Rightarrow> row" where
  "put StudyId v r = r\<lparr>study_id := v\<rparr>"
| "put ParticipantId v r = r\<lparr>participant_id := v\<rparr>"
| "put MeasurementType v r = r\<lparr>measurement_type := v\<rparr>"
| "put Value v r = r\<lparr>value' := v\<rparr>"
| "put Unit v r = r\<lparr>unit' := v\<rparr>"
| "put Timestamp v r = r\<lparr>timestamp := v\<rparr>"
| "put SiteId v r = r\<lparr>site_id := v\<rparr>"
| "put QualityScore v r = r\<lparr>quality_score := v\<rparr>"

text \<open>
  A DataFrame: which declared columns it has (a file may lack some), the dtype of each,
  and its rows.  The cell that a row holds for a column the frame lacks is never read.
\<close>

record frame =
  columns :: "col list"
  dtypes :: "col \<Rightarrow> dtype"
  rows :: "row list"

type_synonym series = "dtype \<times> cell list"

text \<open>\<^verbatim>\<open>data[c]\<close> raises \<^verbatim>\<open>KeyError\<close> for a column the frame lacks.\<close>

definition getitem :: "frame \<Rightarrow> col \<Rightarrow> exn + series" where
  "getitem data c =
     (if c \<in> set (columns data) then Inr (dtypes data c, map (get c) (rows data))
      else Inl (KeyError (col_name c)))"

text \<open>\<^verbatim>\<open>data[c] = s\<close>: the column takes the dtype and the cells of the series.\<close>

definition setitem :: "frame \<Rightarrow> col \<Rightarrow> series \<Rightarrow> exn + frame" where
  "setitem data c s =
     (if length (snd s) \<noteq> length (rows data)
      then Inl (ValueError ''Length of values does not match length of index'')
      else Inr (data\<lparr>columns := (if c \<in> set (columns data) then columns data
                                    else columns data @ [c]),
                     dtypes := (dtypes data)(c := fst s),
                     rows := map2 (put c) (snd s) (rows data)\<rparr>))"

definition row_cells :: "frame \<Rightarrow> row \<Rightarrow> cell list" where
  "row_cells data r = map (\<lambda>c. get c r) (columns data) @ others r"

text \<open>\<^verbatim>\<open>data.dropna()\<close> keeps the rows with no missing cell in any column;
  \<^verbatim>\<open>data.dropna(subset=[c])\<close> those with no missing cell in column \<open>c\<close>.\<close>

definition dropna :: "frame \<Rightarrow> frame" where
  "dropna data = data\<lparr>rows := filter (\<lambda>r. NA \<notin> set (row_cells data r)) (rows data)\<rparr>"

definition dropna_subset :: "col \<Rightarrow> frame \<Rightarrow> frame" where
  "dropna_subset c data = data\<lparr>rows := filter (\<lambda>r. get c r \<noteq> NA) (rows data)\<rparr>"

text \<open>\<^verbatim>\<open>drop_duplicates(subset=..., keep='first')\<close>: of the rows with one key, the first stays.\<close>

fun drop_duplicates :: "(row \<Rightarrow> 'k) \<Rightarrow> row list \<Rightarrow> row list" where
  "drop_duplicates key [] = []"
| "drop_duplicates key (r # rs) = r # drop_duplicates key (filter (\<lambda>x. key x \<noteq> key r) rs)"

definition dedup_key :: "row \<Rightarrow> cell \<times> cell" where
  "dedup_key r = (participant_id r, measurement_type r)"

section \<open>The library and the environment\<close>

text \<open>
  What the source calls and does not define: the pandas functions whose result the source
  does not fix, and the clock.
  \<^item> \<open>read_csv\<close>: \<^verbatim>\<open>pd.read_csv(path)\<close>, the file system included;
  \<^item> \<open>to_datetime\<close>: \<^verbatim>\<open>pd.to_datetime(s, errors='coerce')\<close> on a column;
  \<^item> \<open>convert_dtype\<close>: the dtype that \<^verbatim>\<open>convert_dtypes()\<close> gives a column (the values
    stay what they are: a cell is a value, whatever array holds it);
  \<^item> \<open>sort_values\<close>: the row order of \<^verbatim>\<open>sort_values(by=c, ascending=b)\<close>, whose default
    algorithm (quicksort) leaves the order of equal keys open;
  \<^item> \<open>compare_other\<close>: the comparison of a column with a scalar where the column's
    dtype is not one the comparison is meant for;
  \<^item> \<open>now\<close>: \<^verbatim>\<open>pd.Timestamp.now(tz='UTC')\<close>, in nanoseconds since the epoch.
\<close>

datatype cmp = GeZero | Between01 | LeNow

record pandas =
  read_csv :: "string \<Rightarrow> exn + frame"
  to_datetime :: "series \<Rightarrow> exn + series"
  convert_dtype :: "dtype \<Rightarrow> cell list \<Rightarrow> dtype"
  sort_values :: "col \<Rightarrow> bool \<Rightarrow> row list \<Rightarrow> row list"
  compare_other :: "cmp \<Rightarrow> series \<Rightarrow> exn + bool option list"
  now :: int

definition convert_dtypes :: "pandas \<Rightarrow> frame \<Rightarrow> frame" where
  "convert_dtypes p data =
     data\<lparr>dtypes := (\<lambda>c. convert_dtype p (dtypes data c) (map (get c) (rows data)))\<rparr>"

section \<open>The stages\<close>

text \<open>
  The four stages of \<^verbatim>\<open>data_processing.py\<close>.  Each begins with \<^verbatim>\<open>await asyncio.sleep(1)\<close>,
  which changes no value and is left out; \<open>now\<close> is the clock as the validation reads
  it, after its sleep.
\<close>

subsection \<open>extract_data\<close>

definition DATA_DIR :: string where
  "DATA_DIR = ''/app/data/''"

definition extract_data :: "pandas \<Rightarrow> string \<Rightarrow> exn + frame" where
  "extract_data p filename = read_csv p (DATA_DIR @ filename)"

subsection \<open>transform_data\<close>

text \<open>\<^verbatim>\<open>assert data[c].dtype == d\<close>\<close>

definition assert_dtype :: "frame \<Rightarrow> col \<Rightarrow> dtype \<Rightarrow> exn + unit" where
  "assert_dtype data c d = bnd (getitem data c) (\<lambda>s. py_assert (fst s = d))"

text \<open>Lines 70 to 77: the rows with a missing value go, the timestamps are parsed and
  the rows whose timestamp did not parse go, the dtypes are converted.\<close>

definition coerce :: "pandas \<Rightarrow> frame \<Rightarrow> exn + frame" where
  "coerce p data0 =
     (let data = dropna data0 in
      bnd (getitem data Timestamp) (\<lambda>s.
      bnd (to_datetime p s) (\<lambda>s'.
      bnd (setitem data Timestamp s') (\<lambda>data.
      let data = dropna_subset Timestamp data in
      Inr (convert_dtypes p data)))))"

text \<open>Lines 78 to 85: the eight assertions, in the order of the source.\<close>

definition assert_dtypes :: "frame \<Rightarrow> exn + unit" where
  "assert_dtypes data =
     bnd (assert_dtype data StudyId StringPython) (\<lambda>_.
     bnd (assert_dtype data ParticipantId StringPython) (\<lambda>_.
     bnd (assert_dtype data MeasurementType StringPython) (\<lambda>_.
     bnd (assert_dtype data Value Float64) (\<lambda>_.
     bnd (assert_dtype data Unit StringPython) (\<lambda>_.
     bnd (assert_dtype data Timestamp DatetimeUTC) (\<lambda>_.
     bnd (assert_dtype data SiteId StringPython) (\<lambda>_.
     assert_dtype data QualityScore Float64)))))))"

text \<open>Line 88.  The assertions have read all eight columns, so the lookups of this
  line cannot raise.\<close>

definition deduplicate :: "pandas \<Rightarrow> frame \<Rightarrow> frame" where
  "deduplicate p data =
     data\<lparr>rows := drop_duplicates dedup_key (sort_values p QualityScore False (rows data))\<rparr>"

definition transform_data :: "pandas \<Rightarrow> frame \<Rightarrow> exn + frame" where
  "transform_data p data0 =
     bnd (coerce p data0) (\<lambda>data.
     bnd (assert_dtypes data) (\<lambda>_.
     Inr (deduplicate p data)))"

subsection \<open>validate_data\<close>

text \<open>
  A comparison of a column with a scalar gives one truth value per cell, or \<^verbatim>\<open>pd.NA\<close>
  (here \<open>None\<close>) for a missing cell of a nullable column; in a numpy float column a
  missing cell is \<^verbatim>\<open>NaN\<close>, which compares false.  A numeric column holds numbers and
  missing values only.  Comparing a datetime column with a number raises \<^verbatim>\<open>TypeError\<close>,
  and so does comparing a timezone-naive column with a timezone-aware instant.
\<close>

definition numeric :: "dtype \<Rightarrow> bool" where
  "numeric d = (d \<in> {NpInt64, NpFloat64, Int64, Float64})"

definition nullable :: "dtype \<Rightarrow> bool" where
  "nullable d = (d \<in> {StringPython, Int64, Float64})"

definition datetime :: "dtype \<Rightarrow> bool" where
  "datetime d = (d \<in> {DatetimeNaive, DatetimeUTC, DatetimeTz})"

definition num_test :: "(real \<Rightarrow> bool) \<Rightarrow> dtype \<Rightarrow> cell \<Rightarrow> bool option" where
  "num_test P d c =
     (case c of Num x \<Rightarrow> Some (P x)
      | _ \<Rightarrow> if nullable d then None else Some False)"

definition num_compare :: "pandas \<Rightarrow> cmp \<Rightarrow> (real \<Rightarrow> bool) \<Rightarrow> series \<Rightarrow> exn + bool option list" where
  "num_compare p k P s =
     (if numeric (fst s) then Inr (map (num_test P (fst s)) (snd s))
      else if datetime (fst s) then Inl (TypeError ''Invalid comparison'')
      else compare_other p k s)"

text \<open>\<^verbatim>\<open>data['value'] >= 0\<close>\<close>

definition ge_zero :: "pandas \<Rightarrow> series \<Rightarrow> exn + bool option list" where
  "ge_zero p s = num_compare p GeZero (\<lambda>x. 0 \<le> x) s"

text \<open>\<^verbatim>\<open>data['quality_score'].between(0, 1)\<close>, both ends inclusive\<close>

definition between01 :: "pandas \<Rightarrow> series \<Rightarrow> exn + bool option list" where
  "between01 p s = num_compare p Between01 (\<lambda>x. 0 \<le> x \<and> x \<le> 1) s"

text \<open>\<^verbatim>\<open>data['timestamp'] <= pd.Timestamp.now(tz='UTC')\<close>; \<^verbatim>\<open>NaT\<close> compares false.\<close>

fun ts_le :: "int \<Rightarrow> cell \<Rightarrow> bool option" where
  "ts_le n (Ts t) = Some (t \<le> n)"
| "ts_le n c = Some False"

definition le_now :: "pandas \<Rightarrow> series \<Rightarrow> exn + bool option list" where
  "le_now p s =
     (if fst s \<in> {DatetimeUTC, DatetimeTz}
      then Inr (map (ts_le (now p)) (snd s))
      else if fst s = DatetimeNaive
      then Inl (TypeError ''Cannot compare tz-naive and tz-aware datetime-like objects'')
      else compare_other p LeNow s)"

text \<open>Python's \<^verbatim>\<open>all\<close> over the comparison's result stops at the first false element;
  the truth value of \<^verbatim>\<open>pd.NA\<close> raises \<^verbatim>\<open>TypeError\<close>.\<close>

fun py_all :: "bool option list \<Rightarrow> exn + bool" where
  "py_all [] = Inr True"
| "py_all (Some True # bs) = py_all bs"
| "py_all (Some False # bs) = Inr False"
| "py_all (None # bs) = Inl (TypeError ''boolean value of NA is ambiguous'')"

text \<open>
  \<^verbatim>\<open>data.groupby('measurement_type')\<close>: one group for each measurement type that is not
  missing, holding the rows of that type; \<^verbatim>\<open>group['unit'].unique()\<close>: the distinct
  units of the group, a missing unit counting as one.
\<close>

definition group_keys :: "frame \<Rightarrow> cell list" where
  "group_keys data = remdups (filter (\<lambda>k. k \<noteq> NA) (map measurement_type (rows data)))"

definition group_units :: "frame \<Rightarrow> cell \<Rightarrow> cell list" where
  "group_units data k =
     remdups (map unit' (filter (\<lambda>r. measurement_type r = k) (rows data)))"

fun assert_units :: "frame \<Rightarrow> cell list \<Rightarrow> exn + unit" where
  "assert_units data [] = Inr ()"
| "assert_units data (k # ks) =
     bnd (getitem data Unit) (\<lambda>_.
     bnd (py_assert (length (group_units data k) = 1)) (\<lambda>_.
     assert_units data ks))"

text \<open>The body of the \<^verbatim>\<open>try\<close>: lines 109 to 114.\<close>

definition validate_try :: "pandas \<Rightarrow> frame \<Rightarrow> exn + bool" where
  "validate_try p data =
     bnd (getitem data Value) (\<lambda>s.
     bnd (ge_zero p s) (\<lambda>bs.
     bnd (py_all bs) (\<lambda>b.
     bnd (py_assert b) (\<lambda>_.
     bnd (getitem data QualityScore) (\<lambda>s.
     bnd (between01 p s) (\<lambda>bs.
     bnd (py_all bs) (\<lambda>b.
     bnd (py_assert b) (\<lambda>_.
     bnd (getitem data Timestamp) (\<lambda>s.
     bnd (le_now p s) (\<lambda>bs.
     bnd (py_all bs) (\<lambda>b.
     bnd (py_assert b) (\<lambda>_.
     bnd (getitem data MeasurementType) (\<lambda>_.
     bnd (assert_units data (group_keys data)) (\<lambda>_.
     Inr True))))))))))))))"

text \<open>
  \<^verbatim>\<open>except AssertionError: return False\<close>; any other exception leaves the function.
  The function reads \<open>data\<close> and the clock and assigns to neither: the second component
  of the result is the record set the caller still holds.
\<close>

definition validate_data :: "pandas \<Rightarrow> frame \<Rightarrow> (exn + bool) \<times> frame" where
  "validate_data p data =
     (case validate_try p data of
        Inl AssertionError \<Rightarrow> (Inr False, data)
      | r \<Rightarrow> (r, data))"

subsection \<open>load_data\<close>

text \<open>The body is \<^verbatim>\<open>pass\<close>: the function takes the record set and the store and returns,
  the store being what it was.\<close>

definition load_data :: "frame \<Rightarrow> row list \<Rightarrow> (exn + unit) \<times> row list" where
  "load_data data store = (Inr (), store)"

section \<open>Jobs and the orchestrator\<close>

record ETLJobRequest =
  jobId :: string
  filename :: string
  studyId :: "string option"

text \<open>The dictionary that \<^verbatim>\<open>submit_job\<close> stores for a job: the request's three fields
  and the three that the orchestrator writes.\<close>

record job = ETLJobRequest +
  status :: string
  progress :: int
  message :: string

record ETLJobResponse =
  resp_jobId :: string
  resp_status :: string
  resp_message :: string

datatype http_error = HTTPException nat string

datatype stage = Extract | Transform | Validate | Load

text \<open>What a run does that an observer can see: the call of a stage, and each write to
  the job's entry.\<close>

datatype event = Call stage | SetStatus string | SetProgress int | SetMessage string

text \<open>
  The state of the process: the module's dictionary \<open>jobs\<close>, the pipeline runs that
  \<^verbatim>\<open>asyncio.create_task\<close> has started (file name and job id, in the order of their
  start; the callback that forgets a finished task is left out), the store behind
  \<^verbatim>\<open>load_data\<close>, and the events so far.
\<close>

record world =
  jobs :: "string \<rightharpoonup> job"
  tasks :: "(string \<times> string) list"
  db :: "row list"
  events :: "event list"

type_synonym 'a action = "world \<Rightarrow> (exn + 'a) \<times> world"

definition andthen :: "'a action \<Rightarrow> ('a \<Rightarrow> 'b action) \<Rightarrow> 'b action" where
  "andthen m f w = (case m w of (Inl e, w') \<Rightarrow> (Inl e, w') | (Inr x, w') \<Rightarrow> f x w')"

text \<open>\<^verbatim>\<open>try: m except Exception as e: h(e)\<close>: the handler starts from the state the body
  left.\<close>

definition try_except :: "'a action \<Rightarrow> (exn \<Rightarrow> 'a action) \<Rightarrow> 'a action" where
  "try_except m h w = (case m w of (Inl e, w') \<Rightarrow> h e w' | (Inr x, w') \<Rightarrow> (Inr x, w'))"

text \<open>\<^verbatim>\<open>jobs[job_id][key] = v\<close>: \<^verbatim>\<open>jobs[job_id]\<close> raises \<^verbatim>\<open>KeyError\<close> for an unknown id.\<close>

definition write_job :: "string \<Rightarrow> event \<Rightarrow> (job \<Rightarrow> job) \<Rightarrow> unit action" where
  "write_job job_id ev upd w =
     (case jobs w job_id of
        None \<Rightarrow> (Inl (KeyError job_id), w)
      | Some j \<Rightarrow> (Inr (), w\<lparr>jobs := (jobs w)(job_id \<mapsto> upd j), events := events w @ [ev]\<rparr>))"

definition set_status :: "string \<Rightarrow> string \<Rightarrow> unit action" where
  "set_status job_id v = write_job job_id (SetStatus v) (\<lambda>j. j\<lparr>status := v\<rparr>)"

definition set_progress :: "string \<Rightarrow> int \<Rightarrow> unit action" where
  "set_progress job_id v = write_job job_id (SetProgress v) (\<lambda>j. j\<lparr>progress := v\<rparr>)"

definition set_message :: "string \<Rightarrow> string \<Rightarrow> unit action" where
  "set_message job_id v = write_job job_id (SetMessage v) (\<lambda>j. j\<lparr>message := v\<rparr>)"

text \<open>\<^verbatim>\<open>await stage(...)\<close> for the three stages that only compute, and for \<^verbatim>\<open>load_data\<close>.\<close>

definition await :: "stage \<Rightarrow> exn + 'a \<Rightarrow> 'a action" where
  "await s r w = (r, w\<lparr>events := events w @ [Call s]\<rparr>)"

definition await_load :: "frame \<Rightarrow> unit action" where
  "await_load data w =
     (case load_data data (db w) of
        (r, store) \<Rightarrow> (r, w\<lparr>db := store, events := events w @ [Call Load]\<rparr>))"

text \<open>
  Lines 130 to 152, the body of the \<^verbatim>\<open>try\<close>.  A run is one task of the event loop; at
  its \<^verbatim>\<open>await\<close>s other tasks may run, which write the entries of other jobs only and
  remove none, so that the run meets its own entry as it left it.
\<close>

definition etl_pipeline_try :: "pandas \<Rightarrow> string \<Rightarrow> string \<Rightarrow> unit action" where
  "etl_pipeline_try p fname job_id =
     andthen (set_message job_id ''Extracting data'') (\<lambda>_.
     andthen (await Extract (extract_data p fname)) (\<lambda>data.
     andthen (set_progress job_id 25) (\<lambda>_.
     andthen (set_message job_id ''Transforming data'') (\<lambda>_.
     andthen (await Transform (transform_data p data)) (\<lambda>data.
     andthen (set_progress job_id 50) (\<lambda>_.
     andthen (set_message job_id ''Validating data'') (\<lambda>_.
     andthen (await Validate (fst (validate_data p data))) (\<lambda>is_valid.
     if \<not> is_valid then
       andthen (set_status job_id ''failed'') (\<lambda>_.
       andthen (set_message job_id ''Data validation failed'') (\<lambda>_.
       set_progress job_id 100))
     else
       andthen (set_progress job_id 75) (\<lambda>_.
       andthen (set_message job_id ''Loading data into database'') (\<lambda>_.
       andthen (await_load data) (\<lambda>_.
       andthen (set_progress job_id 100) (\<lambda>_.
       andthen (set_status job_id ''completed'') (\<lambda>_.
       set_message job_id ''ETL process completed successfully'')))))))))))))"

text \<open>Lines 153 to 156, the handler.\<close>

definition etl_pipeline_except :: "string \<Rightarrow> exn \<Rightarrow> unit action" where
  "etl_pipeline_except job_id e =
     andthen (set_status job_id ''failed'') (\<lambda>_.
     andthen (set_message job_id (''ETL process failed: '' @ str_exn e)) (\<lambda>_.
     set_progress job_id 100))"

definition etl_pipeline :: "pandas \<Rightarrow> string \<Rightarrow> string \<Rightarrow> unit action" where
  "etl_pipeline p fname job_id =
     try_except (etl_pipeline_try p fname job_id) (etl_pipeline_except job_id)"

subsection \<open>submit_job\<close>

definition submit_job :: "ETLJobRequest \<Rightarrow> world \<Rightarrow> (http_error + ETLJobResponse) \<times> world" where
  "submit_job job_request w =
     (let job_id = jobId job_request in
      if job_id \<in> dom (jobs w) then (Inl (HTTPException 400 ''Job ID already exists''), w)
      else
        (Inr \<lparr>resp_jobId = job_id, resp_status = ''running'',
              resp_message = ''Job submitted successfully''\<rparr>,
         w\<lparr>jobs := (jobs w)(job_id \<mapsto>
               \<lparr>jobId = job_id, filename = filename job_request,
                studyId = studyId job_request, status = ''running'', progress = 0,
                message = ''Job started''\<rparr>),
           tasks := tasks w @ [(filename job_request, job_id)]\<rparr>))"

text \<open>The stages that a list of events calls, in order.\<close>

fun stage_calls :: "event list \<Rightarrow> stage list" where
  "stage_calls [] = []"
| "stage_calls (Call s # es) = s # stage_calls es"
| "stage_calls (e # es) = stage_calls es"

section \<open>What the properties are stated with\<close>

fun is_num :: "cell \<Rightarrow> bool" where
  "is_num (Num x) = True"
| "is_num c = False"

fun is_str :: "cell \<Rightarrow> bool" where
  "is_str (Str s) = True"
| "is_str c = False"

fun is_ts :: "cell \<Rightarrow> bool" where
  "is_ts (Ts t) = True"
| "is_ts c = False"

definition all_columns :: "col list" where
  "all_columns =
     [StudyId, ParticipantId, MeasurementType, Value, Unit, Timestamp, SiteId, QualityScore]"

text \<open>
  A cleaned record set, after the schema of the specification: the eight columns with the
  dtypes that \<^verbatim>\<open>transform_data\<close> asserts, and in every row a string, a number or an
  instant where the schema says so, hence no missing value.
\<close>

definition cleaned_row :: "row \<Rightarrow> bool" where
  "cleaned_row r =
     (is_str (study_id r) \<and> is_str (participant_id r) \<and> is_str (measurement_type r) \<and>
      is_num (value' r) \<and> is_str (unit' r) \<and> is_ts (timestamp r) \<and> is_str (site_id r) \<and>
      is_num (quality_score r) \<and> NA \<notin> set (others r))"

definition cleaned_dtypes :: "col \<Rightarrow> dtype" where
  "cleaned_dtypes c =
     (if c = Value \<or> c = QualityScore then Float64
      else if c = Timestamp then DatetimeUTC else StringPython)"

definition cleaned :: "frame \<Rightarrow> bool" where
  "cleaned data =
     (set (columns data) = set all_columns \<and> dtypes data = cleaned_dtypes \<and>
      list_all cleaned_row (rows data))"

text \<open>The four rules of the Validation stage, in the words of the specification, for
  validation running at the instant \<open>t\<close>.\<close>

definition rules_hold :: "int \<Rightarrow> frame \<Rightarrow> bool" where
  "rules_hold t data =
     ((\<forall>r \<in> set (rows data). \<exists>x. value' r = Num x \<and> 0 \<le> x) \<and>
      (\<forall>r \<in> set (rows data). \<exists>q. quality_score r = Num q \<and> 0 \<le> q \<and> q \<le> 1) \<and>
      (\<forall>r \<in> set (rows data). \<exists>s. timestamp r = Ts s \<and> s \<le> t) \<and>
      (\<forall>m \<in> measurement_type ` set (rows data).
         card (unit' ` {r \<in> set (rows data). measurement_type r = m}) = 1))"

subsection \<open>What the proofs take from the library\<close>

text \<open>The order of two quality scores; it says nothing of a cell that is no number.\<close>

fun cell_ge :: "cell \<Rightarrow> cell \<Rightarrow> bool" where
  "cell_ge (Num x) (Num y) = (y \<le> x)"
| "cell_ge c c' = True"

text \<open>\<^verbatim>\<open>sort_values(by='quality_score', ascending=False)\<close> permutes the rows and puts the
  numbers in descending order.\<close>

definition sorts_descending :: "pandas \<Rightarrow> bool" where
  "sorts_descending p =
     (\<forall>rs. mset (sort_values p QualityScore False rs) = mset rs \<and>
           sorted_wrt (\<lambda>a b. cell_ge (quality_score a) (quality_score b))
             (sort_values p QualityScore False rs))"

text \<open>\<^verbatim>\<open>convert_dtypes\<close> gives \<^verbatim>\<open>Float64\<close> to a column of numbers and missing values
  only.\<close>

definition float64_is_numeric :: "pandas \<Rightarrow> bool" where
  "float64_is_numeric p =
     (\<forall>d cs. convert_dtype p d cs = Float64 \<longrightarrow> list_all (\<lambda>c. c = NA \<or> is_num c) cs)"

text \<open>\<^verbatim>\<open>convert_dtypes\<close> and \<^verbatim>\<open>to_datetime\<close> leave a column alone that already has one of
  the three dtypes of a cleaned record set.\<close>

definition keeps_converted :: "pandas \<Rightarrow> bool" where
  "keeps_converted p =
     ((\<forall>cs. to_datetime p (DatetimeUTC, cs) = Inr (DatetimeUTC, cs)) \<and>
      (\<forall>cs. convert_dtype p DatetimeUTC cs = DatetimeUTC) \<and>
      (\<forall>cs. convert_dtype p StringPython cs = StringPython) \<and>
      (\<forall>cs. list_all is_num cs \<longrightarrow> convert_dtype p Float64 cs = Float64))"

text \<open>\<^verbatim>\<open>convert_dtypes\<close> leaves a datetime column its dtype.\<close>

definition keeps_datetime :: "pandas \<Rightarrow> bool" where
  "keeps_datetime p = (\<forall>d cs. datetime d \<longrightarrow> convert_dtype p d cs = d)"

section \<open>A library instance and files for concrete runs\<close>

text \<open>
  A small stand-in for pandas, for running the model on concrete files.  Its
  \<open>to_datetime\<close> knows the instants listed here: an ISO string ending in \<^verbatim>\<open>Z\<close> is
  timezone-aware UTC, one without an offset is timezone-naive; any other string does not
  parse.  Its \<open>convert_dtype\<close> turns a column of strings into \<^verbatim>\<open>string[python]\<close>, a float
  column into \<^verbatim>\<open>Int64\<close> when every number is whole and into \<^verbatim>\<open>Float64\<close> otherwise, and
  leaves the extension and datetime dtypes.  Its sort is a stable insertion sort.
\<close>

definition utc_instants :: "(string \<times> int) list" where
  "utc_instants =
     [(''2024-01-15T09:30:00Z'', 1705311000000000000),
      (''2024-01-16T10:00:00Z'', 1705399200000000000)]"

definition naive_instants :: "(string \<times> int) list" where
  "naive_instants = [(''2024-01-15 09:30:00'', 1705311000000000000)]"

fun demo_parse :: "cell \<Rightarrow> cell" where
  "demo_parse (Str s) =
     (case map_of (utc_instants @ naive_instants) s of Some t \<Rightarrow> Ts t | None \<Rightarrow> NA)"
| "demo_parse (Ts t) = Ts t"
| "demo_parse c = NA"

definition demo_to_datetime :: "series \<Rightarrow> exn + series" where
  "demo_to_datetime s =
     (if datetime (fst s) then Inr s
      else Inr (if list_ex (\<lambda>c. c \<in> Str ` fst ` set utc_instants) (snd s) then DatetimeUTC
                else DatetimeNaive,
                map demo_parse (snd s)))"

fun integral :: "cell \<Rightarrow> bool" where
  "integral (Num x) = (x = of_int \<lfloor>x\<rfloor>)"
| "integral c = True"

fun demo_convert_dtype :: "dtype \<Rightarrow> cell list \<Rightarrow> dtype" where
  "demo_convert_dtype Object cs =
     (if filter (\<lambda>c. c \<noteq> NA) cs \<noteq> [] \<and> list_all (\<lambda>c. c = NA \<or> is_str c) cs
      then StringPython else Object)"
| "demo_convert_dtype NpInt64 cs = Int64"
| "demo_convert_dtype NpFloat64 cs =
     (if list_all (\<lambda>c. c = NA \<or> is_num c) cs
      then (if list_all integral cs then Int64 else Float64) else Object)"
| "demo_convert_dtype Float64 cs =
     (if list_all (\<lambda>c. c = NA \<or> is_num c) cs then Float64 else Object)"
| "demo_convert_dtype d cs = d"

fun sort_num :: "cell \<Rightarrow> real" where
  "sort_num (Num x) = x"
| "sort_num c = 0"

definition demo_sort_values :: "col \<Rightarrow> bool \<Rightarrow> row list \<Rightarrow> row list" where
  "demo_sort_values c ascending rs =
     sort_key (\<lambda>r. if ascending then sort_num (get c r) else - sort_num (get c r)) rs"

text \<open>A row of a file as \<^verbatim>\<open>read_csv\<close> gives it: participant, value, unit, timestamp and
  quality score vary.\<close>

definition sample_row :: "string \<Rightarrow> real \<Rightarrow> cell \<Rightarrow> string \<Rightarrow> real \<Rightarrow> row" where
  "sample_row pid v u ts q =
     \<lparr>study_id = Str ''S1'', participant_id = Str pid, measurement_type = Str ''bp'',
      value' = Num v, unit' = u, timestamp = Str ts, site_id = Str ''A'',
      quality_score = Num q, others = []\<rparr>"

definition raw_dtypes :: "col \<Rightarrow> dtype" where
  "raw_dtypes c = (if c = Value \<or> c = QualityScore then NpFloat64 else Object)"

definition raw_frame :: "row list \<Rightarrow> frame" where
  "raw_frame rs = \<lparr>columns = all_columns, dtypes = raw_dtypes, rows = rs\<rparr>"

text \<open>Two readings of one participant, with quality scores 0.7 and 0.9.\<close>

definition sample_frame :: frame where
  "sample_frame =
     raw_frame
       [sample_row ''P1'' (241/2) (Str ''mmHg'') ''2024-01-16T10:00:00Z'' (7/10),
        sample_row ''P1'' (237/2) (Str ''mmHg'') ''2024-01-15T09:30:00Z'' (9/10)]"

text \<open>Two participants whose blood pressure comes in two units.\<close>

definition mixed_units_frame :: frame where
  "mixed_units_frame =
     raw_frame
       [sample_row ''P1'' (241/2) (Str ''mmHg'') ''2024-01-16T10:00:00Z'' (7/10),
        sample_row ''P2'' (31/2) (Str ''kPa'') ''2024-01-15T09:30:00Z'' (9/10)]"

text \<open>A file whose timestamps carry no offset.\<close>

definition naive_frame :: frame where
  "naive_frame =
     raw_frame [sample_row ''P1'' (241/2) (Str ''mmHg'') ''2024-01-15 09:30:00'' (7/10)]"

text \<open>A file whose reading with the best quality score lacks its unit.\<close>

definition missing_unit_frame :: frame where
  "missing_unit_frame =
     raw_frame
       [sample_row ''P1'' (241/2) NA ''2024-01-16T10:00:00Z'' (9/10),
        sample_row ''P1'' (237/2) (Str ''mmHg'') ''2024-01-15T09:30:00Z'' (7/10)]"

definition demo_read_csv :: "string \<Rightarrow> exn + frame" where
  "demo_read_csv path =
     (if path = ''/app/data/sample.csv'' then Inr sample_frame
      else if path = ''/app/data/mixed_units.csv'' then Inr mixed_units_frame
      else if path = ''/app/data/naive.csv'' then Inr naive_frame
      else Inl (FileNotFoundError (''No such file or directory: '' @ path)))"

definition demo :: pandas where
  "demo =
     \<lparr>read_csv = demo_read_csv, to_datetime = demo_to_datetime,
      convert_dtype = demo_convert_dtype, sort_values = demo_sort_values,
      compare_other = (\<lambda>k s. Inl (TypeError ''unsupported operand'')),
      now = 1800000000000000000\<rparr>"

text \<open>The record sets that \<^verbatim>\<open>transform_data\<close> makes of the first two files.\<close>

definition cleaned_sample_row :: "string \<Rightarrow> real \<Rightarrow> string \<Rightarrow> int \<Rightarrow> real \<Rightarrow> row" where
  "cleaned_sample_row pid v u t q =
     \<lparr>study_id = Str ''S1'', participant_id = Str pid, measurement_type = Str ''bp'',
      value' = Num v, unit' = Str u, timestamp = Ts t, site_id = Str ''A'',
      quality_score = Num q, others = []\<rparr>"

definition cleaned_frame :: "row list \<Rightarrow> frame" where
  "cleaned_frame rs = \<lparr>columns = all_columns, dtypes = cleaned_dtypes, rows = rs\<rparr>"

definition sample_cleaned :: frame where
  "sample_cleaned =
     cleaned_frame [cleaned_sample_row ''P1'' (237/2) ''mmHg'' 1705311000000000000 (9/10)]"

definition mixed_units_cleaned :: frame where
  "mixed_units_cleaned =
     cleaned_frame
       [cleaned_sample_row ''P2'' (31/2) ''kPa'' 1705311000000000000 (9/10),
        cleaned_sample_row ''P1'' (241/2) ''mmHg'' 1705399200000000000 (7/10)]"

text \<open>A registry that holds one running job.\<close>

definition job1 :: job where
  "job1 =
     \<lparr>jobId = ''job-1'', filename = ''sample.csv'', studyId = None, status = ''running'',
      progress = 0, message = ''Job started''\<rparr>"

definition world1 :: world where
  "world1 = \<lparr>jobs = [''job-1'' \<mapsto> job1], tasks = [(''sample.csv'', ''job-1'')], db = [],
             events = []\<rparr>"

section \<open>Concrete runs\<close>

lemmas transform_defs =
  transform_data_def coerce_def assert_dtypes_def assert_dtype_def deduplicate_def
  convert_dtypes_def dropna_def dropna_subset_def getitem_def setitem_def row_cells_def
  bnd_def py_assert_def dedup_key_def

lemmas validate_defs =
  validate_data_def validate_try_def ge_zero_def between01_def le_now_def num_compare_def
  num_test_def numeric_def nullable_def group_keys_def group_units_def getitem_def
  bnd_def py_assert_def

lemmas demo_defs =
  demo_def demo_read_csv_def demo_to_datetime_def demo_sort_values_def sample_frame_def
  sample_row_def all_columns_def raw_dtypes_def raw_frame_def utc_instants_def
  naive_instants_def datetime_def mixed_units_frame_def naive_frame_def
  missing_unit_frame_def cleaned_frame_def cleaned_sample_row_def sample_cleaned_def
  mixed_units_cleaned_def cleaned_dtypes_def

lemma transform_sample: "transform_data demo sample_frame = Inr sample_cleaned"
  apply (simp add: transform_defs demo_defs)
  apply (rule ext)
  subgoal for c by (cases c) (simp_all add: raw_dtypes_def cleaned_dtypes_def)
  done

lemma transform_mixed_units: "transform_data demo mixed_units_frame = Inr mixed_units_cleaned"
  apply (simp add: transform_defs demo_defs)
  apply (rule ext)
  subgoal for c by (cases c) (simp_all add: raw_dtypes_def cleaned_dtypes_def)
  done

lemma transform_naive: "transform_data demo naive_frame = Inl AssertionError"
  by (simp add: transform_defs demo_defs)

lemma validate_sample: "fst (validate_data demo sample_cleaned) = Inr True"
  by (simp add: validate_defs demo_defs)

lemma validate_mixed_units: "fst (validate_data demo mixed_units_cleaned) = Inr False"
  by (simp add: validate_defs demo_defs)

lemma extract_sample: "extract_data demo ''sample.csv'' = Inr sample_frame"
  by (simp add: extract_data_def DATA_DIR_def demo_def demo_read_csv_def)

lemma extract_mixed_units: "extract_data demo ''mixed_units.csv'' = Inr mixed_units_frame"
  by (simp add: extract_data_def DATA_DIR_def demo_def demo_read_csv_def)

lemma extract_naive: "extract_data demo ''naive.csv'' = Inr naive_frame"
  by (simp add: extract_data_def DATA_DIR_def demo_def demo_read_csv_def)

lemma extract_missing:
  "extract_data demo ''missing.csv'' =
     Inl (FileNotFoundError ''No such file or directory: /app/data/missing.csv'')"
  by (simp add: extract_data_def DATA_DIR_def demo_def demo_read_csv_def)

lemma world1_job1: "jobs world1 ''job-1'' = Some job1"
  by (simp add: world1_def)

section \<open>The orchestrator\<close>

lemmas pipeline_defs =
  etl_pipeline_def try_except_def etl_pipeline_try_def etl_pipeline_except_def andthen_def
  set_status_def set_progress_def set_message_def write_job_def await_def await_load_def
  load_data_def

lemma run_extract_raises:
  assumes "jobs w job_id = Some j" and "extract_data p fname = Inl e"
  shows "etl_pipeline p fname job_id w =
    (Inr (), w\<lparr>jobs := (jobs w)(job_id \<mapsto>
        j\<lparr>status := ''failed'', message := ''ETL process failed: '' @ str_exn e,
          progress := 100\<rparr>),
      events := events w @ [SetMessage ''Extracting data'', Call Extract, SetStatus ''failed'',
        SetMessage (''ETL process failed: '' @ str_exn e), SetProgress 100]\<rparr>)"
  using assms by (simp add: pipeline_defs)

lemma run_transform_raises:
  assumes "jobs w job_id = Some j" and "extract_data p fname = Inr d"
    and "transform_data p d = Inl e"
  shows "etl_pipeline p fname job_id w =
    (Inr (), w\<lparr>jobs := (jobs w)(job_id \<mapsto>
        j\<lparr>status := ''failed'', message := ''ETL process failed: '' @ str_exn e,
          progress := 100\<rparr>),
      events := events w @ [SetMessage ''Extracting data'', Call Extract, SetProgress 25,
        SetMessage ''Transforming data'', Call Transform, SetStatus ''failed'',
        SetMessage (''ETL process failed: '' @ str_exn e), SetProgress 100]\<rparr>)"
  using assms by (simp add: pipeline_defs)

lemma run_validate_raises:
  assumes "jobs w job_id = Some j" and "extract_data p fname = Inr d"
    and "transform_data p d = Inr d'" and "fst (validate_data p d') = Inl e"
  shows "etl_pipeline p fname job_id w =
    (Inr (), w\<lparr>jobs := (jobs w)(job_id \<mapsto>
        j\<lparr>status := ''failed'', message := ''ETL process failed: '' @ str_exn e,
          progress := 100\<rparr>),
      events := events w @ [SetMessage ''Extracting data'', Call Extract, SetProgress 25,
        SetMessage ''Transforming data'', Call Transform, SetProgress 50,
        SetMessage ''Validating data'', Call Validate, SetStatus ''failed'',
        SetMessage (''ETL process failed: '' @ str_exn e), SetProgress 100]\<rparr>)"
  using assms by (simp add: pipeline_defs)

lemma run_invalid:
  assumes "jobs w job_id = Some j" and "extract_data p fname = Inr d"
    and "transform_data p d = Inr d'" and "fst (validate_data p d') = Inr False"
  shows "etl_pipeline p fname job_id w =
    (Inr (), w\<lparr>jobs := (jobs w)(job_id \<mapsto>
        j\<lparr>status := ''failed'', message := ''Data validation failed'', progress := 100\<rparr>),
      events := events w @ [SetMessage ''Extracting data'', Call Extract, SetProgress 25,
        SetMessage ''Transforming data'', Call Transform, SetProgress 50,
        SetMessage ''Validating data'', Call Validate, SetStatus ''failed'',
        SetMessage ''Data validation failed'', SetProgress 100]\<rparr>)"
  using assms by (simp add: pipeline_defs)

lemma run_valid:
  assumes "jobs w job_id = Some j" and "extract_data p fname = Inr d"
    and "transform_data p d = Inr d'" and "fst (validate_data p d') = Inr True"
  shows "etl_pipeline p fname job_id w =
    (Inr (), w\<lparr>jobs := (jobs w)(job_id \<mapsto>
        j\<lparr>progress := 100, status := ''completed'',
          message := ''ETL process completed successfully''\<rparr>),
      events := events w @ [SetMessage ''Extracting data'', Call Extract, SetProgress 25,
        SetMessage ''Transforming data'', Call Transform, SetProgress 50,
        SetMessage ''Validating data'', Call Validate, SetProgress 75,
        SetMessage ''Loading data into database'', Call Load, SetProgress 100,
        SetStatus ''completed'', SetMessage ''ETL process completed successfully'']\<rparr>)"
  using assms by (simp add: pipeline_defs)

lemma run_unknown_job:
  assumes "jobs w job_id = None"
  shows "etl_pipeline p fname job_id w = (Inl (KeyError job_id), w)"
  using assms by (simp add: pipeline_defs)

lemma stage_calls_append: "stage_calls (es @ es') = stage_calls es @ stage_calls es'"
  by (induction es rule: stage_calls.induct) simp_all

text \<open>
  C3: a run of a registered job returns without an exception, whatever the stages do.
  When a stage raises, the job ends with status \<^verbatim>\<open>failed\<close>, progress 100 and the message
  \<^verbatim>\<open>ETL process failed: \<close> followed by the exception's text, and no later stage is
  called.  (\<^verbatim>\<open>load_data\<close> has no raising path.)
\<close>

theorem etl_pipeline_catches:
  assumes "jobs w job_id = Some j"
  shows "\<exists>w'. etl_pipeline p fname job_id w = (Inr (), w') \<and>
    (\<forall>e. extract_data p fname = Inl e \<longrightarrow>
       jobs w' job_id = Some (j\<lparr>status := ''failed'',
         message := ''ETL process failed: '' @ str_exn e, progress := 100\<rparr>) \<and>
       stage_calls (events w') = stage_calls (events w) @ [Extract]) \<and>
    (\<forall>d e. extract_data p fname = Inr d \<and> transform_data p d = Inl e \<longrightarrow>
       jobs w' job_id = Some (j\<lparr>status := ''failed'',
         message := ''ETL process failed: '' @ str_exn e, progress := 100\<rparr>) \<and>
       stage_calls (events w') = stage_calls (events w) @ [Extract, Transform]) \<and>
    (\<forall>d d' e. extract_data p fname = Inr d \<and> transform_data p d = Inr d' \<and>
         fst (validate_data p d') = Inl e \<longrightarrow>
       jobs w' job_id = Some (j\<lparr>status := ''failed'',
         message := ''ETL process failed: '' @ str_exn e, progress := 100\<rparr>) \<and>
       stage_calls (events w') = stage_calls (events w) @ [Extract, Transform, Validate])"
proof (cases "extract_data p fname")
  case (Inl e)
  show ?thesis
    using run_extract_raises [OF assms Inl] Inl by (simp add: stage_calls_append)
next
  case (Inr d)
  note ex = this
  show ?thesis
  proof (cases "transform_data p d")
    case (Inl e)
    show ?thesis
      using run_transform_raises [OF assms ex Inl] ex Inl by (simp add: stage_calls_append)
  next
    case (Inr d')
    note tr = this
    show ?thesis
    proof (cases "fst (validate_data p d')")
      case (Inl e)
      show ?thesis
        using run_validate_raises [OF assms ex tr Inl] ex tr Inl
        by (simp add: stage_calls_append)
    next
      case (Inr v)
      show ?thesis
      proof (cases v)
        case True
        with Inr show ?thesis using run_valid [OF assms ex tr] ex tr by simp
      next
        case False
        with Inr show ?thesis using run_invalid [OF assms ex tr] ex tr by simp
      qed
    qed
  qed
qed

theorem etl_pipeline_catches_witness:
  "jobs world1 ''job-1'' = Some job1 \<and>
   extract_data demo ''missing.csv'' =
     Inl (FileNotFoundError ''No such file or directory: /app/data/missing.csv'') \<and>
   (\<exists>w'. etl_pipeline demo ''missing.csv'' ''job-1'' world1 = (Inr (), w') \<and>
      jobs w' ''job-1'' = Some (job1\<lparr>status := ''failed'',
        message := ''ETL process failed: No such file or directory: /app/data/missing.csv'',
        progress := 100\<rparr>) \<and>
      stage_calls (events w') = [Extract]) \<and>
   extract_data demo ''naive.csv'' = Inr naive_frame \<and>
   transform_data demo naive_frame = Inl AssertionError \<and>
   (\<exists>w'. etl_pipeline demo ''naive.csv'' ''job-1'' world1 = (Inr (), w') \<and>
      jobs w' ''job-1'' = Some (job1\<lparr>status := ''failed'',
        message := ''ETL process failed: '', progress := 100\<rparr>) \<and>
      stage_calls (events w') = [Extract, Transform])"
  using etl_pipeline_catches [OF world1_job1, of demo "''missing.csv''"]
    etl_pipeline_catches [OF world1_job1, of demo "''naive.csv''"]
    extract_missing extract_naive transform_naive world1_job1
  by (auto simp add: world1_def)

text \<open>
  C5: when validation returns true, the run writes progress 75 and calls the Load stage;
  when it returns false, the job ends failed with the message
  \<^verbatim>\<open>Data validation failed\<close> and progress 100, and the Load stage is not called.
\<close>

theorem etl_pipeline_validate_step:
  assumes "jobs w job_id = Some j" and "extract_data p fname = Inr d"
    and "transform_data p d = Inr d'" and "fst (validate_data p d') = Inr v"
  shows "\<exists>w'. etl_pipeline p fname job_id w = (Inr (), w') \<and>
    (if v
     then events w' = events w @ [SetMessage ''Extracting data'', Call Extract, SetProgress 25,
        SetMessage ''Transforming data'', Call Transform, SetProgress 50,
        SetMessage ''Validating data'', Call Validate, SetProgress 75,
        SetMessage ''Loading data into database'', Call Load, SetProgress 100,
        SetStatus ''completed'', SetMessage ''ETL process completed successfully'']
     else jobs w' job_id = Some (j\<lparr>status := ''failed'',
          message := ''Data validation failed'', progress := 100\<rparr>) \<and>
        events w' = events w @ [SetMessage ''Extracting data'', Call Extract, SetProgress 25,
          SetMessage ''Transforming data'', Call Transform, SetProgress 50,
          SetMessage ''Validating data'', Call Validate, SetStatus ''failed'',
          SetMessage ''Data validation failed'', SetProgress 100] \<and>
        stage_calls (events w') = stage_calls (events w) @ [Extract, Transform, Validate])"
proof (cases v)
  case True
  with assms(4) have "fst (validate_data p d') = Inr True" by simp
  from run_valid [OF assms(1-3) this] True show ?thesis by simp
next
  case False
  with assms(4) have "fst (validate_data p d') = Inr False" by simp
  from run_invalid [OF assms(1-3) this] False show ?thesis
    by (simp add: stage_calls_append)
qed

theorem etl_pipeline_validate_step_witness:
  "jobs world1 ''job-1'' = Some job1 \<and>
   extract_data demo ''sample.csv'' = Inr sample_frame \<and>
   transform_data demo sample_frame = Inr sample_cleaned \<and>
   fst (validate_data demo sample_cleaned) = Inr True \<and>
   (\<exists>w'. etl_pipeline demo ''sample.csv'' ''job-1'' world1 = (Inr (), w') \<and>
      events w' = [SetMessage ''Extracting data'', Call Extract, SetProgress 25,
        SetMessage ''Transforming data'', Call Transform, SetProgress 50,
        SetMessage ''Validating data'', Call Validate, SetProgress 75,
        SetMessage ''Loading data into database'', Call Load, SetProgress 100,
        SetStatus ''completed'', SetMessage ''ETL process completed successfully'']) \<and>
   extract_data demo ''mixed_units.csv'' = Inr mixed_units_frame \<and>
   transform_data demo mixed_units_frame = Inr mixed_units_cleaned \<and>
   fst (validate_data demo mixed_units_cleaned) = Inr False \<and>
   (\<exists>w'. etl_pipeline demo ''mixed_units.csv'' ''job-1'' world1 = (Inr (), w') \<and>
      jobs w' ''job-1'' = Some (job1\<lparr>status := ''failed'',
          message := ''Data validation failed'', progress := 100\<rparr>) \<and>
      stage_calls (events w') = [Extract, Transform, Validate])"
  using
    etl_pipeline_validate_step [OF world1_job1 extract_sample transform_sample validate_sample]
    etl_pipeline_validate_step
      [OF world1_job1 extract_mixed_units transform_mixed_units validate_mixed_units]
    world1_job1 extract_sample transform_sample validate_sample
    extract_mixed_units transform_mixed_units validate_mixed_units
  by (auto simp add: world1_def)

text \<open>
  C6: when extraction and transformation succeed and validation returns true, the job
  ends with status \<^verbatim>\<open>completed\<close>, progress 100 and the message
  \<^verbatim>\<open>ETL process completed successfully\<close>.
\<close>

theorem etl_pipeline_completed:
  assumes "jobs w job_id = Some j" and "extract_data p fname = Inr d"
    and "transform_data p d = Inr d'" and "fst (validate_data p d') = Inr True"
  shows "\<exists>w'. etl_pipeline p fname job_id w = (Inr (), w') \<and>
    jobs w' job_id = Some (j\<lparr>progress := 100, status := ''completed'',
      message := ''ETL process completed successfully''\<rparr>)"
  using run_valid [OF assms] by simp

theorem etl_pipeline_completed_witness:
  "jobs world1 ''job-1'' = Some job1 \<and>
   extract_data demo ''sample.csv'' = Inr sample_frame \<and>
   transform_data demo sample_frame = Inr sample_cleaned \<and>
   fst (validate_data demo sample_cleaned) = Inr True \<and>
   (\<exists>w'. etl_pipeline demo ''sample.csv'' ''job-1'' world1 = (Inr (), w') \<and>
      jobs w' ''job-1'' =
        Some \<lparr>jobId = ''job-1'', filename = ''sample.csv'', studyId = None,
              status = ''completed'', progress = 100,
              message = ''ETL process completed successfully''\<rparr>)"
  using
    etl_pipeline_completed [OF world1_job1 extract_sample transform_sample validate_sample]
    world1_job1 extract_sample transform_sample validate_sample
  by (auto simp add: job1_def)

text \<open>
  C9: \<^verbatim>\<open>load_data\<close> returns without an exception and leaves the store as it was, for
  every record set; and a run of a registered job that calls the Load stage returns
  with the job's status \<^verbatim>\<open>completed\<close> and the store unchanged.
\<close>

theorem load_data_noop:
  "load_data data store = (Inr (), store) \<and>
   (\<forall>j r w'. jobs w job_id = Some j \<and> etl_pipeline p fname job_id w = (r, w') \<and>
        Load \<in> set (stage_calls (drop (length (events w)) (events w'))) \<longrightarrow>
      r = Inr () \<and> db w' = db w \<and>
      jobs w' job_id = Some (j\<lparr>progress := 100, status := ''completed'',
        message := ''ETL process completed successfully''\<rparr>))"
proof (intro conjI allI impI)
  show "load_data data store = (Inr (), store)" by (simp add: load_data_def)
next
  fix j r w'
  assume a: "jobs w job_id = Some j \<and> etl_pipeline p fname job_id w = (r, w') \<and>
    Load \<in> set (stage_calls (drop (length (events w)) (events w')))"
  then have reg: "jobs w job_id = Some j" and run: "etl_pipeline p fname job_id w = (r, w')"
    and ld: "Load \<in> set (stage_calls (drop (length (events w)) (events w')))"
    by simp_all
  have "r = Inr () \<and> db w' = db w \<and>
      jobs w' job_id = Some (j\<lparr>progress := 100, status := ''completed'',
        message := ''ETL process completed successfully''\<rparr>)"
  proof (cases "extract_data p fname")
    case (Inl e)
    from run_extract_raises [OF reg Inl] run ld show ?thesis by auto
  next
    case (Inr d)
    note ex = this
    show ?thesis
    proof (cases "transform_data p d")
      case (Inl e)
      from run_transform_raises [OF reg ex Inl] run ld show ?thesis by auto
    next
      case (Inr d')
      note tr = this
      show ?thesis
      proof (cases "fst (validate_data p d')")
        case (Inl e)
        from run_validate_raises [OF reg ex tr Inl] run ld show ?thesis by auto
      next
        case (Inr v)
        show ?thesis
        proof (cases v)
          case True
          with Inr run_valid [OF reg ex tr] run show ?thesis by auto
        next
          case False
          with Inr run_invalid [OF reg ex tr] run ld show ?thesis by auto
        qed
      qed
    qed
  qed
  then show "r = Inr ()" and "db w' = db w"
    and "jobs w' job_id = Some (j\<lparr>progress := 100, status := ''completed'',
        message := ''ETL process completed successfully''\<rparr>)"
    by simp_all
qed

lemma run_sample_world1:
  "etl_pipeline demo ''sample.csv'' ''job-1'' world1 =
    (Inr (), world1\<lparr>jobs := (jobs world1)(''job-1'' \<mapsto>
        job1\<lparr>progress := 100, status := ''completed'',
          message := ''ETL process completed successfully''\<rparr>),
      events := events world1 @ [SetMessage ''Extracting data'', Call Extract, SetProgress 25,
        SetMessage ''Transforming data'', Call Transform, SetProgress 50,
        SetMessage ''Validating data'', Call Validate, SetProgress 75,
        SetMessage ''Loading data into database'', Call Load, SetProgress 100,
        SetStatus ''completed'', SetMessage ''ETL process completed successfully'']\<rparr>)"
  by (rule run_valid [OF world1_job1 extract_sample transform_sample validate_sample])

theorem load_data_noop_witness:
  "load_data sample_cleaned [] = (Inr (), []) \<and>
   jobs world1 ''job-1'' = Some job1 \<and>
   (\<exists>w'. etl_pipeline demo ''sample.csv'' ''job-1'' world1 = (Inr (), w') \<and>
      Load \<in> set (stage_calls (drop (length (events world1)) (events w'))) \<and>
      db w' = db world1 \<and>
      jobs w' ''job-1'' = Some (job1\<lparr>progress := 100, status := ''completed'',
        message := ''ETL process completed successfully''\<rparr>))"
  using load_data_noop [of sample_cleaned "[]" world1 "''job-1''" demo "''sample.csv''"]
    run_sample_world1 world1_job1
  by (auto simp add: world1_def)

section \<open>submit_job\<close>

text \<open>
  C7: submitting a job id that the registry holds fails with the HTTP error 400
  \<^verbatim>\<open>Job ID already exists\<close> and leaves the whole state, the job's entry included, as it
  was.  Submitting a new id stores an entry with status \<^verbatim>\<open>running\<close> and progress 0 and
  starts one pipeline run, for this job and its file; when no run of an unregistered job
  was started before, it is the only run of this job.
\<close>

theorem submit_job_duplicate:
  "(jobId req \<in> dom (jobs w) \<longrightarrow>
      submit_job req w = (Inl (HTTPException 400 ''Job ID already exists''), w)) \<and>
   (jobId req \<notin> dom (jobs w) \<longrightarrow>
      (\<exists>w'. submit_job req w =
          (Inr \<lparr>resp_jobId = jobId req, resp_status = ''running'',
                resp_message = ''Job submitted successfully''\<rparr>, w') \<and>
        jobs w' = (jobs w)(jobId req \<mapsto>
          \<lparr>jobId = jobId req, filename = filename req, studyId = studyId req,
           status = ''running'', progress = 0, message = ''Job started''\<rparr>) \<and>
        tasks w' = tasks w @ [(filename req, jobId req)] \<and>
        db w' = db w \<and> events w' = events w \<and>
        (snd ` set (tasks w) \<subseteq> dom (jobs w) \<longrightarrow>
           filter (\<lambda>t. snd t = jobId req) (tasks w') = [(filename req, jobId req)])))"
proof (intro conjI impI)
  assume "jobId req \<in> dom (jobs w)"
  then show "submit_job req w = (Inl (HTTPException 400 ''Job ID already exists''), w)"
    by (simp add: submit_job_def)
next
  assume fresh: "jobId req \<notin> dom (jobs w)"
  have old: "filter (\<lambda>t. snd t = jobId req) (tasks w) = []"
    if "snd ` set (tasks w) \<subseteq> dom (jobs w)"
    using that fresh by (auto simp add: filter_empty_conv)
  show "\<exists>w'. submit_job req w =
          (Inr \<lparr>resp_jobId = jobId req, resp_status = ''running'',
                resp_message = ''Job submitted successfully''\<rparr>, w') \<and>
        jobs w' = (jobs w)(jobId req \<mapsto>
          \<lparr>jobId = jobId req, filename = filename req, studyId = studyId req,
           status = ''running'', progress = 0, message = ''Job started''\<rparr>) \<and>
        tasks w' = tasks w @ [(filename req, jobId req)] \<and>
        db w' = db w \<and> events w' = events w \<and>
        (snd ` set (tasks w) \<subseteq> dom (jobs w) \<longrightarrow>
           filter (\<lambda>t. snd t = jobId req) (tasks w') = [(filename req, jobId req)])"
    using fresh old by (simp add: submit_job_def Let_def)
qed

theorem submit_job_duplicate_witness:
  "''job-1'' \<in> dom (jobs world1) \<and>
   submit_job \<lparr>jobId = ''job-1'', filename = ''other.csv'', studyId = Some ''S2''\<rparr> world1 =
     (Inl (HTTPException 400 ''Job ID already exists''), world1) \<and>
   ''job-2'' \<notin> dom (jobs world1) \<and>
   snd ` set (tasks world1) \<subseteq> dom (jobs world1) \<and>
   (\<exists>w'. submit_job \<lparr>jobId = ''job-2'', filename = ''other.csv'', studyId = Some ''S2''\<rparr>
          world1 =
          (Inr \<lparr>resp_jobId = ''job-2'', resp_status = ''running'',
                resp_message = ''Job submitted successfully''\<rparr>, w') \<and>
      jobs w' ''job-1'' = Some job1 \<and>
      jobs w' ''job-2'' = Some \<lparr>jobId = ''job-2'', filename = ''other.csv'',
        studyId = Some ''S2'', status = ''running'', progress = 0,
        message = ''Job started''\<rparr> \<and>
      filter (\<lambda>t. snd t = ''job-2'') (tasks w') = [(''other.csv'', ''job-2'')])"
  using
    submit_job_duplicate
      [of "\<lparr>jobId = ''job-1'', filename = ''other.csv'', studyId = Some ''S2''\<rparr>" world1]
    submit_job_duplicate
      [of "\<lparr>jobId = ''job-2'', filename = ''other.csv'', studyId = Some ''S2''\<rparr>" world1]
  by (auto simp add: world1_def)

lemma etl_pipeline_total:
  assumes "jobs w job_id = Some j"
  shows "\<exists>w'. etl_pipeline p fname job_id w = (Inr (), w')"
proof (cases "extract_data p fname")
  case (Inl e)
  from run_extract_raises [OF assms Inl] show ?thesis by simp
next
  case (Inr d)
  note ex = this
  show ?thesis
  proof (cases "transform_data p d")
    case (Inl e)
    from run_transform_raises [OF assms ex Inl] show ?thesis by simp
  next
    case (Inr d')
    note tr = this
    show ?thesis
    proof (cases "fst (validate_data p d')")
      case (Inl e)
      from run_validate_raises [OF assms ex tr Inl] show ?thesis by simp
    next
      case (Inr v)
      with run_valid [OF assms ex tr] run_invalid [OF assms ex tr] show ?thesis
        by (cases v) simp_all
    qed
  qed
qed

text \<open>A run that \<^verbatim>\<open>submit_job\<close> starts finds its job registered, so that no exception
  leaves it.\<close>

lemma submitted_run_returns:
  assumes "submit_job req w = (Inr resp, w')"
  shows "\<exists>w''. etl_pipeline p (filename req) (jobId req) w' = (Inr (), w'')"
proof -
  from assms have "\<exists>j. jobs w' (jobId req) = Some j"
    by (auto simp add: submit_job_def Let_def split: if_splits)
  then obtain j where "jobs w' (jobId req) = Some j" ..
  from etl_pipeline_total [OF this] show ?thesis .
qed

section \<open>validate_data\<close>

lemma bnd_Inr: "bnd (Inr x) f = f x"
  by (simp add: bnd_def)

lemma bnd_Inl: "bnd (Inl e) f = Inl e"
  by (simp add: bnd_def)

lemma num_test_Num: "num_test P d (Num x) = Some (P x)"
  by (simp add: num_test_def)

lemma py_all_num_test:
  assumes "list_all (\<lambda>r. is_num (f r)) rs"
  shows "py_all (map (num_test P d) (map f rs)) =
    Inr (\<forall>r \<in> set rs. \<exists>x. f r = Num x \<and> P x)"
  using assms
proof (induction rs)
  case Nil
  then show ?case by simp
next
  case (Cons r rs)
  then obtain x where x: "f r = Num x" by (cases "f r") simp_all
  from Cons have IH: "py_all (map (num_test P d) (map f rs)) =
    Inr (\<forall>r \<in> set rs. \<exists>x. f r = Num x \<and> P x)" by simp
  show ?case
  proof (cases "P x")
    case True
    with x IH show ?thesis by (simp add: num_test_Num)
  next
    case False
    with x show ?thesis by (simp add: num_test_Num)
  qed
qed

lemma py_all_le_now:
  assumes "list_all (\<lambda>r. is_ts (f r)) rs"
  shows "py_all (map (ts_le n) (map f rs)) = Inr (\<forall>r \<in> set rs. \<exists>s. f r = Ts s \<and> s \<le> n)"
  using assms
proof (induction rs)
  case Nil
  then show ?case by simp
next
  case (Cons r rs)
  then obtain s where s: "f r = Ts s" by (cases "f r") simp_all
  from Cons have IH: "py_all (map (ts_le n) (map f rs)) =
    Inr (\<forall>r \<in> set rs. \<exists>s. f r = Ts s \<and> s \<le> n)" by simp
  show ?case
  proof (cases "s \<le> n")
    case True
    with s IH show ?thesis by simp
  next
    case False
    with s show ?thesis by simp
  qed
qed

lemma assert_units_eq:
  assumes "Unit \<in> set (columns data)"
  shows "assert_units data ks =
    (if \<forall>k \<in> set ks. length (group_units data k) = 1 then Inr () else Inl AssertionError)"
  using assms
  by (induction ks) (simp_all add: bnd_def py_assert_def getitem_def)

lemma length_group_units:
  "length (group_units data k) =
     card (unit' ` {r \<in> set (rows data). measurement_type r = k})"
  by (simp add: group_units_def length_remdups_card_conv)

lemma cleaned_rowD:
  assumes "cleaned data" and "r \<in> set (rows data)"
  shows "cleaned_row r"
  using assms by (simp add: cleaned_def list_all_iff)

lemma set_group_keys:
  assumes "cleaned data"
  shows "set (group_keys data) = measurement_type ` set (rows data)"
proof -
  have "measurement_type r \<noteq> NA" if "r \<in> set (rows data)" for r
    using cleaned_rowD [OF assms that] by (auto simp add: cleaned_row_def)
  then show ?thesis by (auto simp add: group_keys_def)
qed

lemma cleaned_getitem:
  assumes "cleaned data" and "c \<in> set all_columns"
  shows "getitem data c = Inr (cleaned_dtypes c, map (get c) (rows data))"
  using assms by (simp add: cleaned_def getitem_def)

lemma validate_try_cleaned:
  assumes "cleaned data"
  shows "validate_try p data =
    (if rules_hold (now p) data then Inr True else Inl AssertionError)"
proof -
  have nums: "list_all (\<lambda>r. is_num (value' r)) (rows data)"
    and qs: "list_all (\<lambda>r. is_num (quality_score r)) (rows data)"
    and tss: "list_all (\<lambda>r. is_ts (timestamp r)) (rows data)"
    using assms by (simp_all add: cleaned_def cleaned_row_def list_all_iff)
  have gv: "getitem data Value = Inr (Float64, map value' (rows data))"
    and gq: "getitem data QualityScore = Inr (Float64, map quality_score (rows data))"
    and gt: "getitem data Timestamp = Inr (DatetimeUTC, map timestamp (rows data))"
    and gm: "getitem data MeasurementType = Inr (StringPython, map measurement_type (rows data))"
    using cleaned_getitem [OF assms]
    by (simp_all add: all_columns_def cleaned_dtypes_def cong: map_cong)
  have unit: "Unit \<in> set (columns data)"
    using assms by (simp add: cleaned_def all_columns_def)
  have a1: "bnd (ge_zero p (Float64, map value' (rows data))) py_all =
    Inr (\<forall>r \<in> set (rows data). \<exists>x. value' r = Num x \<and> 0 \<le> x)"
    using py_all_num_test [OF nums]
    by (simp add: ge_zero_def num_compare_def numeric_def bnd_def)
  have a2: "bnd (between01 p (Float64, map quality_score (rows data))) py_all =
    Inr (\<forall>r \<in> set (rows data). \<exists>q. quality_score r = Num q \<and> 0 \<le> q \<and> q \<le> 1)"
    using py_all_num_test [OF qs]
    by (simp add: between01_def num_compare_def numeric_def bnd_def)
  have a3: "bnd (le_now p (DatetimeUTC, map timestamp (rows data))) py_all =
    Inr (\<forall>r \<in> set (rows data). \<exists>s. timestamp r = Ts s \<and> s \<le> now p)"
    using py_all_le_now [OF tss]
    by (simp add: le_now_def bnd_def)
  have a4: "assert_units data (group_keys data) =
    (if \<forall>m \<in> measurement_type ` set (rows data).
          card (unit' ` {r \<in> set (rows data). measurement_type r = m}) = 1
     then Inr () else Inl AssertionError)"
    by (simp only: assert_units_eq [OF unit] set_group_keys [OF assms] length_group_units)
  have bnd_assoc: "bnd (bnd m f) g = bnd m (\<lambda>x. bnd (f x) g)" for m :: "exn + 'a"
    and f :: "'a \<Rightarrow> exn + 'b" and g :: "'b \<Rightarrow> exn + 'c"
    by (cases m) (simp_all add: bnd_def)
  have "validate_try p data =
    bnd (bnd (ge_zero p (Float64, map value' (rows data))) py_all) (\<lambda>b.
    bnd (py_assert b) (\<lambda>_.
    bnd (bnd (between01 p (Float64, map quality_score (rows data))) py_all) (\<lambda>b.
    bnd (py_assert b) (\<lambda>_.
    bnd (bnd (le_now p (DatetimeUTC, map timestamp (rows data))) py_all) (\<lambda>b.
    bnd (py_assert b) (\<lambda>_.
    bnd (assert_units data (group_keys data)) (\<lambda>_. Inr True)))))))"
    unfolding validate_try_def gv gq gt gm bnd_assoc by (simp add: bnd_def)
  also have "\<dots> = (if rules_hold (now p) data then Inr True else Inl AssertionError)"
    unfolding a1 a2 a3 a4 by (auto simp add: bnd_def py_assert_def rules_hold_def)
  finally show ?thesis .
qed

text \<open>
  C1: on a cleaned record set \<^verbatim>\<open>validate_data\<close> raises nothing and returns a boolean,
  which is true exactly when the four rules hold at the instant the validation reads
  from the clock.
\<close>

theorem validate_data_rules:
  assumes "cleaned data"
  shows "fst (validate_data p data) = Inr (rules_hold (now p) data)"
  by (simp add: validate_data_def validate_try_cleaned [OF assms])

lemma cleaned_sample: "cleaned sample_cleaned"
  by (simp add: cleaned_def cleaned_row_def sample_cleaned_def cleaned_frame_def
      cleaned_sample_row_def)

lemma cleaned_mixed_units: "cleaned mixed_units_cleaned"
  by (simp add: cleaned_def cleaned_row_def mixed_units_cleaned_def cleaned_frame_def
      cleaned_sample_row_def)

theorem validate_data_rules_witness:
  "cleaned sample_cleaned \<and> fst (validate_data demo sample_cleaned) = Inr True \<and>
   rules_hold (now demo) sample_cleaned \<and>
   cleaned mixed_units_cleaned \<and> fst (validate_data demo mixed_units_cleaned) = Inr False \<and>
   \<not> rules_hold (now demo) mixed_units_cleaned"
  using validate_data_rules [OF cleaned_sample, of demo]
    validate_data_rules [OF cleaned_mixed_units, of demo]
    cleaned_sample cleaned_mixed_units validate_sample validate_mixed_units
  by simp

text \<open>
  C8, as stated, fails: \<^verbatim>\<open>validate_data\<close> reads the clock.  One cleaned record set, whose
  reading is stamped 2024-01-15 09:30:00 UTC, is refused by an invocation one second
  before that instant and accepted by an invocation one second after it.
\<close>

theorem validate_data_twice_counterexample:
  "fst (validate_data (demo\<lparr>now := 1705310999000000000\<rparr>) sample_cleaned) = Inr False \<and>
   fst (validate_data (demo\<lparr>now := 1705311001000000000\<rparr>) sample_cleaned) = Inr True"
  by (simp add: validate_defs demo_defs)

lemma le_now_between:
  assumes "t1 \<le> t2"
    and "\<forall>c \<in> set cs. \<forall>s. c = Ts s \<longrightarrow> \<not> (t1 < s \<and> s \<le> t2)"
  shows "le_now (p\<lparr>now := t1\<rparr>) (d, cs) = le_now (p\<lparr>now := t2\<rparr>) (d, cs)"
proof -
  have "ts_le t1 c = ts_le t2 c" if "c \<in> set cs" for c
    using assms that by (cases c) auto
  then have "map (ts_le t1) cs = map (ts_le t2) cs" by simp
  then show ?thesis by (simp add: le_now_def)
qed

lemma validate_try_between:
  assumes "t1 \<le> t2"
    and "\<forall>r \<in> set (rows data). \<forall>s. timestamp r = Ts s \<longrightarrow> \<not> (t1 < s \<and> s \<le> t2)"
  shows "validate_try (p\<lparr>now := t1\<rparr>) data = validate_try (p\<lparr>now := t2\<rparr>) data"
proof -
  have ge: "ge_zero (p\<lparr>now := t\<rparr>) s = ge_zero p s" for t s
    by (simp add: ge_zero_def num_compare_def)
  have bt: "between01 (p\<lparr>now := t\<rparr>) s = between01 p s" for t s
    by (simp add: between01_def num_compare_def)
  have "\<forall>c \<in> set (map timestamp (rows data)). \<forall>s. c = Ts s \<longrightarrow> \<not> (t1 < s \<and> s \<le> t2)"
    using assms(2) by auto
  from le_now_between [OF assms(1) this]
  have le: "le_now (p\<lparr>now := t1\<rparr>) (d, map timestamp (rows data)) =
     le_now (p\<lparr>now := t2\<rparr>) (d, map timestamp (rows data))" for d .
  show ?thesis
  proof (cases "Timestamp \<in> set (columns data)")
    case True
    then have "getitem data Timestamp = Inr (dtypes data Timestamp, map timestamp (rows data))"
      by (simp add: getitem_def cong: map_cong)
    then show ?thesis by (simp add: validate_try_def ge bt le bnd_Inr)
  next
    case False
    then have "getitem data Timestamp = Inl (KeyError ''timestamp'')"
      by (simp add: getitem_def)
    then show ?thesis by (simp add: validate_try_def ge bt bnd_def)
  qed
qed

text \<open>
  C8, amended: \<^verbatim>\<open>validate_data\<close> is a function of the record set and of the instant that
  its clock read returns.  Two invocations on the same input, the second not before the
  first, return the same result when no timestamp of the input lies after the first
  instant and at or before the second, so in particular when both read the same instant;
  and each invocation leaves the record set as it was.
\<close>

theorem validate_data_pure:
  assumes "t1 \<le> t2"
    and "\<forall>r \<in> set (rows data). \<forall>s. timestamp r = Ts s \<longrightarrow> \<not> (t1 < s \<and> s \<le> t2)"
  shows "fst (validate_data (p\<lparr>now := t1\<rparr>) data) = fst (validate_data (p\<lparr>now := t2\<rparr>) data) \<and>
    snd (validate_data (p\<lparr>now := t1\<rparr>) data) = data \<and>
    snd (validate_data (p\<lparr>now := t2\<rparr>) data) = data"
proof -
  have "snd (validate_data q data) = data" for q
    by (simp add: validate_data_def split: sum.splits exn.splits)
  then show ?thesis
    by (simp add: validate_data_def validate_try_between [OF assms])
qed

theorem validate_data_pure_witness:
  "(1705311001000000000 :: int) \<le> 1705311002000000000 \<and>
   list_all (\<lambda>r. \<exists>s. timestamp r = Ts s \<and>
       \<not> (1705311001000000000 < s \<and> s \<le> 1705311002000000000)) (rows sample_cleaned) \<and>
   fst (validate_data (demo\<lparr>now := 1705311001000000000\<rparr>) sample_cleaned) = Inr True \<and>
   fst (validate_data (demo\<lparr>now := 1705311002000000000\<rparr>) sample_cleaned) = Inr True \<and>
   snd (validate_data (demo\<lparr>now := 1705311002000000000\<rparr>) sample_cleaned) = sample_cleaned"
proof -
  have h: "\<forall>r \<in> set (rows sample_cleaned). \<forall>s. timestamp r = Ts s \<longrightarrow>
      \<not> (1705311001000000000 < s \<and> s \<le> 1705311002000000000)"
    by (simp add: sample_cleaned_def cleaned_frame_def cleaned_sample_row_def)
  have v: "fst (validate_data (demo\<lparr>now := 1705311001000000000\<rparr>) sample_cleaned) = Inr True"
    by (simp add: validate_defs demo_defs)
  from validate_data_pure [of 1705311001000000000 1705311002000000000 sample_cleaned demo, OF _ h] v
  show ?thesis
    by (simp add: sample_cleaned_def cleaned_frame_def cleaned_sample_row_def)
qed

section \<open>transform_data\<close>

subsection \<open>drop_duplicates\<close>

lemma set_drop_duplicates: "set (drop_duplicates k xs) \<subseteq> set xs"
  by (induction k xs rule: drop_duplicates.induct) auto

lemma keys_drop_duplicates: "k ` set (drop_duplicates k xs) = k ` set xs"
proof (induction k xs rule: drop_duplicates.induct)
  case (1 k)
  show ?case by simp
next
  case (2 k r rs)
  have "k ` set (r # rs) = insert (k r) (k ` set (filter (\<lambda>x. k x \<noteq> k r) rs))"
    by auto
  with 2 show ?case by simp
qed

lemma distinct_drop_duplicates: "distinct (map k (drop_duplicates k xs))"
proof (induction k xs rule: drop_duplicates.induct)
  case (1 k)
  show ?case by simp
next
  case (2 k r rs)
  have "k r \<notin> k ` set (drop_duplicates k (filter (\<lambda>x. k x \<noteq> k r) rs))"
    by (auto simp add: keys_drop_duplicates)
  with 2 show ?case by simp
qed

lemma drop_duplicates_first:
  assumes "sorted_wrt R xs" and "\<And>x. R x x"
    and "r \<in> set (drop_duplicates k xs)" and "r' \<in> set xs" and "k r' = k r"
  shows "R r r'"
  using assms
proof (induction k xs rule: drop_duplicates.induct)
  case (1 k)
  then show ?case by simp
next
  case (2 k x xs)
  show ?case
  proof (cases "r = x")
    case True
    with 2 show ?thesis by auto
  next
    case False
    with 2 have r: "r \<in> set (drop_duplicates k (filter (\<lambda>y. k y \<noteq> k x) xs))" by simp
    with set_drop_duplicates [of k "filter (\<lambda>y. k y \<noteq> k x) xs"]
    have "k r \<noteq> k x" by auto
    with 2 have r': "r' \<in> set (filter (\<lambda>y. k y \<noteq> k x) xs)" by auto
    from 2 have "sorted_wrt R (filter (\<lambda>y. k y \<noteq> k x) xs)"
      by (simp add: sorted_wrt_filter)
    from "2.IH" [OF this "2.prems"(2) r r' "2.prems"(5)] show ?thesis .
  qed
qed

lemma drop_duplicates_distinct:
  assumes "distinct (map k xs)"
  shows "drop_duplicates k xs = xs"
  using assms
proof (induction k xs rule: drop_duplicates.induct)
  case (1 k)
  show ?case by simp
next
  case (2 k r rs)
  from "2.prems" have "k r \<notin> k ` set rs" by simp
  then have "\<forall>x \<in> set rs. k x \<noteq> k r"
    by (metis imageI)
  then have "filter (\<lambda>x. k x \<noteq> k r) rs = rs"
    by (simp add: filter_id_conv)
  with 2 show ?case by simp
qed

subsection \<open>The rows that lines 70 to 77 keep\<close>

lemma get_timestamp_update:
  "get c (r\<lparr>timestamp := v\<rparr>) = (if c = Timestamp then v else get c r)"
  by (cases c) simp_all

lemma get_put_Timestamp: "get c (put Timestamp v r) = (if c = Timestamp then v else get c r)"
  by (simp add: get_timestamp_update)

lemma others_put_Timestamp: "others (put Timestamp v r) = others r"
  by simp

lemma put_Timestamp_same: "put Timestamp (timestamp r) r = r"
  by simp

lemma map2_put_same: "map2 (put Timestamp) (map timestamp rs) rs = rs"
  by (induction rs) simp_all

lemma coerce_Inr:
  assumes "coerce p data0 = Inr data"
  obtains d' cs' where "Timestamp \<in> set (columns data0)"
    and "to_datetime p (dtypes data0 Timestamp, map timestamp (rows (dropna data0))) = Inr (d', cs')"
    and "length cs' = length (rows (dropna data0))"
    and "columns data = columns data0"
    and "rows data = filter (\<lambda>r. timestamp r \<noteq> NA) (map2 (put Timestamp) cs' (rows (dropna data0)))"
    and "dtypes data = (\<lambda>c. convert_dtype p (if c = Timestamp then d' else dtypes data0 c)
           (map (get c) (rows data)))"
proof -
  from assms have ts: "Timestamp \<in> set (columns data0)"
    by (auto simp add: coerce_def Let_def getitem_def dropna_def bnd_def split: if_splits)
  then have g: "getitem (dropna data0) Timestamp =
      Inr (dtypes data0 Timestamp, map timestamp (rows (dropna data0)))"
    by (simp add: getitem_def dropna_def)
  from assms g obtain s' where
    s': "to_datetime p (dtypes data0 Timestamp, map timestamp (rows (dropna data0))) = Inr s'"
    by (cases "to_datetime p (dtypes data0 Timestamp, map timestamp (rows (dropna data0)))")
      (simp_all add: coerce_def Let_def bnd_def)
  obtain d' cs' where dc: "s' = (d', cs')" by (cases s')
  from assms g s' dc have len: "length cs' = length (rows (dropna data0))"
    by (auto simp add: coerce_def Let_def bnd_def setitem_def split: if_splits)
  from assms g s' dc len ts
  have data: "data = convert_dtypes p (dropna_subset Timestamp
      ((dropna data0)\<lparr>dtypes := (dtypes (dropna data0))(Timestamp := d'),
         rows := map2 (put Timestamp) cs' (rows (dropna data0))\<rparr>))"
    by (simp add: coerce_def Let_def bnd_def setitem_def dropna_def del: put.simps)
  show thesis
  proof (rule that [OF ts _ len])
    show "to_datetime p (dtypes data0 Timestamp, map timestamp (rows (dropna data0))) = Inr (d', cs')"
      using s' dc by simp
    show "columns data = columns data0"
      by (simp add: data convert_dtypes_def dropna_subset_def dropna_def)
    show "rows data = filter (\<lambda>r. timestamp r \<noteq> NA) (map2 (put Timestamp) cs' (rows (dropna data0)))"
      by (simp add: data convert_dtypes_def dropna_subset_def)
    show "dtypes data = (\<lambda>c. convert_dtype p (if c = Timestamp then d' else dtypes data0 c)
           (map (get c) (rows data)))"
      by (rule ext) (simp add: data convert_dtypes_def dropna_subset_def dropna_def)
  qed
qed

text \<open>Every row that is kept is a complete row of the input with its timestamp parsed,
  and holds no missing value.\<close>

lemma coerce_rows:
  assumes "coerce p data0 = Inr data" and "r \<in> set (rows data)"
  shows "\<exists>r0 \<in> set (rows data0). NA \<notin> set (row_cells data0 r0) \<and>
    r = put Timestamp (timestamp r) r0 \<and> timestamp r \<noteq> NA"
proof -
  from assms(1) obtain cs' where
    rows: "rows data = filter (\<lambda>r. timestamp r \<noteq> NA) (map2 (put Timestamp) cs' (rows (dropna data0)))"
    by (rule coerce_Inr)
  with assms(2) have ts: "timestamp r \<noteq> NA"
    and "r \<in> set (map2 (put Timestamp) cs' (rows (dropna data0)))" by simp_all
  then obtain v r0 where "r = put Timestamp v r0" and "r0 \<in> set (rows (dropna data0))"
    by (auto dest: set_zip_rightD)
  then have "r0 \<in> set (rows data0)" and "NA \<notin> set (row_cells data0 r0)"
    and "r = put Timestamp (timestamp r) r0"
    by (simp_all add: dropna_def)
  with ts show ?thesis by blast
qed

lemma coerce_no_NA:
  assumes "coerce p data0 = Inr data" and "r \<in> set (rows data)"
  shows "NA \<notin> set (row_cells data r)"
proof -
  from coerce_rows [OF assms] obtain r0 where r0: "NA \<notin> set (row_cells data0 r0)"
    and r: "r = put Timestamp (timestamp r) r0" and ts: "timestamp r \<noteq> NA" by blast
  from assms(1) have cols: "columns data = columns data0" by (rule coerce_Inr)
  have "NA \<noteq> get c r" if "c \<in> set (columns data0)" for c
  proof (cases "c = Timestamp")
    case True
    with ts show ?thesis by simp
  next
    case False
    have "get c r = get c (put Timestamp (timestamp r) r0)" using r by simp
    also have "\<dots> = get c r0" using False by (simp add: get_timestamp_update)
    finally have "get c r = get c r0" .
    moreover from r0 that have "get c r0 \<noteq> NA"
      by (auto simp add: row_cells_def image_iff)
    ultimately show ?thesis by simp
  qed
  then have "NA \<notin> (\<lambda>c. get c r) ` set (columns data0)" by blast
  moreover have "others r = others r0"
    using arg_cong [OF r, of others] by simp
  ultimately show ?thesis using r0 cols by (auto simp add: row_cells_def)
qed

subsection \<open>The assertions\<close>

lemma all_col:
  "(\<forall>c. P c) \<longleftrightarrow>
     P StudyId \<and> P ParticipantId \<and> P MeasurementType \<and> P Value \<and> P Unit \<and>
     P Timestamp \<and> P SiteId \<and> P QualityScore"
proof
  assume r: "P StudyId \<and> P ParticipantId \<and> P MeasurementType \<and> P Value \<and> P Unit \<and>
     P Timestamp \<and> P SiteId \<and> P QualityScore"
  show "\<forall>c. P c"
  proof
    fix c
    from r show "P c" by (cases c) simp_all
  qed
qed simp

lemma dtypes_cleaned_iff:
  "dtypes data = cleaned_dtypes \<longleftrightarrow>
     dtypes data StudyId = StringPython \<and> dtypes data ParticipantId = StringPython \<and>
     dtypes data MeasurementType = StringPython \<and> dtypes data Value = Float64 \<and>
     dtypes data Unit = StringPython \<and> dtypes data Timestamp = DatetimeUTC \<and>
     dtypes data SiteId = StringPython \<and> dtypes data QualityScore = Float64"
  unfolding fun_eq_iff all_col [of "\<lambda>c. dtypes data c = cleaned_dtypes c"]
  by (simp add: cleaned_dtypes_def)

lemma assert_dtype_Inr:
  "assert_dtype data c d = Inr u \<longleftrightarrow> c \<in> set (columns data) \<and> dtypes data c = d"
  by (simp add: assert_dtype_def getitem_def bnd_def py_assert_def)

lemma bnd_Inr_iff: "bnd m f = Inr y \<longleftrightarrow> (\<exists>x. m = Inr x \<and> f x = Inr y)"
  by (cases m) (simp_all add: bnd_def)

lemma assert_dtypes_Inr:
  "assert_dtypes data = Inr u \<longleftrightarrow>
     set all_columns \<subseteq> set (columns data) \<and> dtypes data = cleaned_dtypes"
  unfolding dtypes_cleaned_iff assert_dtypes_def bnd_Inr_iff assert_dtype_Inr
  by (auto simp add: all_columns_def)

lemma assert_dtype_present:
  assumes "c \<in> set (columns data)"
  shows "assert_dtype data c d = (if dtypes data c = d then Inr () else Inl AssertionError)"
  using assms by (simp add: assert_dtype_def getitem_def bnd_def py_assert_def)

lemma assert_dtypes_eq:
  assumes "set all_columns \<subseteq> set (columns data)"
  shows "assert_dtypes data =
    (if dtypes data = cleaned_dtypes then Inr () else Inl AssertionError)"
proof -
  from assms have "c \<in> set (columns data)" for c
    by (cases c) (simp_all add: all_columns_def)
  then show ?thesis
    unfolding dtypes_cleaned_iff assert_dtypes_def
    by (simp add: assert_dtype_present bnd_def)
qed

lemma transform_data_Inr:
  assumes "transform_data p data0 = Inr out"
  obtains data where "coerce p data0 = Inr data" and "assert_dtypes data = Inr ()"
    and "out = deduplicate p data"
  using assms
  by (cases "coerce p data0"; cases "assert_dtypes (projr (coerce p data0))")
    (auto simp add: transform_data_def bnd_def)

subsection \<open>The library instance meets what the proofs take from the library\<close>

lemma demo_sorts_descending: "sorts_descending demo"
proof -
  have "sorted_wrt (\<lambda>a b. cell_ge (quality_score a) (quality_score b))
      (sort_key (\<lambda>r. - sort_num (quality_score r)) rs)" for rs :: "row list"
  proof -
    have "sorted (map (\<lambda>r. - sort_num (quality_score r))
        (sort_key (\<lambda>r. - sort_num (quality_score r)) rs))"
      by (rule sorted_sort_key)
    then have "sorted_wrt (\<lambda>a b. - sort_num (quality_score a) \<le> - sort_num (quality_score b))
        (sort_key (\<lambda>r. - sort_num (quality_score r)) rs)"
      by (simp add: sorted_map)
    moreover have "cell_ge (quality_score a) (quality_score b)"
      if "- sort_num (quality_score a) \<le> - sort_num (quality_score b)" for a b :: row
      using that by (cases "quality_score a"; cases "quality_score b") simp_all
    ultimately show ?thesis by (rule sorted_wrt_mono_rel [rotated]) simp
  qed
  then show ?thesis
    by (simp add: sorts_descending_def demo_def demo_sort_values_def)
qed

lemma demo_float64_is_numeric: "float64_is_numeric demo"
proof -
  have "list_all (\<lambda>c. c = NA \<or> is_num c) cs" if "demo_convert_dtype d cs = Float64" for d cs
    using that by (cases d) (simp_all split: if_splits)
  then show ?thesis by (simp add: float64_is_numeric_def demo_def)
qed

lemma demo_keeps_converted: "keeps_converted demo"
proof -
  have "list_all (\<lambda>c. c = NA \<or> is_num c) cs" if "list_all is_num cs" for cs
    using that by (simp add: list_all_iff)
  then show ?thesis
    by (simp add: keeps_converted_def demo_def demo_to_datetime_def datetime_def)
qed

lemma demo_keeps_datetime: "keeps_datetime demo"
proof -
  have "demo_convert_dtype d cs = d" if "datetime d" for d cs
    using that by (cases d) (simp_all add: datetime_def)
  then show ?thesis by (simp add: keeps_datetime_def demo_def)
qed

subsection \<open>The output\<close>

lemma deduplicate_rows:
  assumes "sorts_descending p"
  shows "set (rows (deduplicate p data)) \<subseteq> set (rows data)"
    and "distinct (map dedup_key (rows (deduplicate p data)))"
    and "dedup_key ` set (rows (deduplicate p data)) = dedup_key ` set (rows data)"
    and "\<lbrakk>r \<in> set (rows (deduplicate p data)); r' \<in> set (rows data);
          dedup_key r' = dedup_key r\<rbrakk>
      \<Longrightarrow> cell_ge (quality_score r) (quality_score r')"
proof -
  let ?xs = "sort_values p QualityScore False (rows data)"
  from assms have m: "mset ?xs = mset (rows data)"
    and s: "sorted_wrt (\<lambda>a b. cell_ge (quality_score a) (quality_score b)) ?xs"
    by (simp_all add: sorts_descending_def)
  from m have set: "set ?xs = set (rows data)" by (rule mset_eq_setD)
  have rows: "rows (deduplicate p data) = drop_duplicates dedup_key ?xs"
    by (simp add: deduplicate_def)
  show "set (rows (deduplicate p data)) \<subseteq> set (rows data)"
    using set_drop_duplicates [of dedup_key ?xs] by (simp add: rows set)
  show "distinct (map dedup_key (rows (deduplicate p data)))"
    by (simp add: rows distinct_drop_duplicates)
  show "dedup_key ` set (rows (deduplicate p data)) = dedup_key ` set (rows data)"
    by (simp add: rows keys_drop_duplicates set)
  have refl: "cell_ge (quality_score x) (quality_score x)" for x :: row
    by (cases "quality_score x") simp_all
  show "cell_ge (quality_score r) (quality_score r')"
    if "r \<in> set (rows (deduplicate p data))" and "r' \<in> set (rows data)"
      and "dedup_key r' = dedup_key r"
    using drop_duplicates_first [of "\<lambda>a b. cell_ge (quality_score a) (quality_score b)"
        ?xs r dedup_key r', OF s refl] that
    by (simp add: rows set)
qed

text \<open>After the assertions every quality score and every value is a number.\<close>

lemma asserted_numbers:
  assumes "float64_is_numeric p" and "coerce p data0 = Inr data"
    and "assert_dtypes data = Inr ()" and "r \<in> set (rows data)"
  shows "is_num (quality_score r)" and "is_num (value' r)"
proof -
  from assms(3) have cols: "set all_columns \<subseteq> set (columns data)"
    and dt: "dtypes data = cleaned_dtypes"
    by (simp_all add: assert_dtypes_Inr)
  from assms(2) obtain d' where
    conv: "dtypes data = (\<lambda>c. convert_dtype p (if c = Timestamp then d' else dtypes data0 c)
           (map (get c) (rows data)))"
    by (rule coerce_Inr)
  have num: "list_all (\<lambda>c. c = NA \<or> is_num c) (map (get c) (rows data))"
    if "c = Value \<or> c = QualityScore" for c
  proof -
    from that dt have "dtypes data c = Float64" by (auto simp add: cleaned_dtypes_def)
    with conv have "convert_dtype p (if c = Timestamp then d' else dtypes data0 c)
           (map (get c) (rows data)) = Float64" by (simp add: fun_eq_iff)
    with assms(1) show ?thesis by (simp add: float64_is_numeric_def)
  qed
  from coerce_no_NA [OF assms(2,4)] cols
  have "quality_score r \<noteq> NA" and "value' r \<noteq> NA"
    by (auto simp add: row_cells_def all_columns_def image_iff)
  with num [of QualityScore] num [of Value] assms(4)
  show "is_num (quality_score r)" and "is_num (value' r)"
    by (auto simp add: list_all_iff)
qed

lemma transform_missing_unit:
  "transform_data demo missing_unit_frame =
     Inr (cleaned_frame [cleaned_sample_row ''P1'' (237/2) ''mmHg'' 1705311000000000000 (7/10)])"
  apply (simp add: transform_defs demo_defs)
  apply (rule ext)
  subgoal for c by (cases c) (simp_all add: raw_dtypes_def cleaned_dtypes_def)
  done

text \<open>
  C2, as stated, fails where it speaks of the groups of input rows: a row that the
  completeness filter drops takes no part in the deduplication.  Of two input readings
  of participant P1, the one with quality score 0.9 lacks its unit; the output keeps the
  other, whose score is 0.7.
\<close>

theorem transform_data_max_counterexample:
  "sorts_descending demo \<and> float64_is_numeric demo \<and>
   rows missing_unit_frame =
     [sample_row ''P1'' (241/2) NA ''2024-01-16T10:00:00Z'' (9/10),
      sample_row ''P1'' (237/2) (Str ''mmHg'') ''2024-01-15T09:30:00Z'' (7/10)] \<and>
   transform_data demo missing_unit_frame =
     Inr (cleaned_frame [cleaned_sample_row ''P1'' (237/2) ''mmHg'' 1705311000000000000 (7/10)]) \<and>
   dedup_key (sample_row ''P1'' (241/2) NA ''2024-01-16T10:00:00Z'' (9/10)) =
     dedup_key (cleaned_sample_row ''P1'' (237/2) ''mmHg'' 1705311000000000000 (7/10)) \<and>
   quality_score (sample_row ''P1'' (241/2) NA ''2024-01-16T10:00:00Z'' (9/10)) = Num (9/10) \<and>
   quality_score (cleaned_sample_row ''P1'' (237/2) ''mmHg'' 1705311000000000000 (7/10)) =
     Num (7/10) \<and>
   \<not> cell_ge (Num (7/10)) (Num (9/10))"
  using demo_sorts_descending demo_float64_is_numeric transform_missing_unit
  by (simp add: missing_unit_frame_def raw_frame_def sample_row_def cleaned_sample_row_def
      dedup_key_def)

text \<open>
  C2, amended: when \<^verbatim>\<open>transform_data\<close> returns, no row of the output holds a missing
  value, no two rows of the output share a pair (participant_id, measurement_type), and
  the groups are those of the rows that the two filters keep (lines 70 to 74): the
  complete rows of the input, each with its parsed timestamp, less those whose timestamp
  did not parse.  Every output row is one of these rows, every pair among them has its
  row in the output, and that row's quality score is the greatest of its group.
\<close>

theorem transform_data_dedup:
  assumes "sorts_descending p" and "float64_is_numeric p"
    and "transform_data p data0 = Inr out"
  shows "\<exists>data. coerce p data0 = Inr data \<and>
    (\<exists>d' cs'.
        to_datetime p (dtypes data0 Timestamp, map timestamp (rows (dropna data0))) =
          Inr (d', cs') \<and>
        rows data = filter (\<lambda>r. timestamp r \<noteq> NA)
          (map2 (put Timestamp) cs' (rows (dropna data0)))) \<and>
    (\<forall>r \<in> set (rows data). \<exists>r0 \<in> set (rows data0). NA \<notin> set (row_cells data0 r0) \<and>
        r = put Timestamp (timestamp r) r0 \<and> timestamp r \<noteq> NA) \<and>
    (\<forall>r \<in> set (rows out). NA \<notin> set (row_cells out r)) \<and>
    distinct (map dedup_key (rows out)) \<and>
    set (rows out) \<subseteq> set (rows data) \<and>
    dedup_key ` set (rows out) = dedup_key ` set (rows data) \<and>
    (\<forall>r \<in> set (rows out). \<forall>r' \<in> set (rows data). dedup_key r' = dedup_key r \<longrightarrow>
        (\<exists>x y. quality_score r = Num x \<and> quality_score r' = Num y \<and> y \<le> x))"
proof -
  from assms(3) obtain data where co: "coerce p data0 = Inr data"
    and as: "assert_dtypes data = Inr ()" and out: "out = deduplicate p data"
    by (rule transform_data_Inr)
  note dd = deduplicate_rows [OF assms(1), where data = data, folded out]
  have cols: "columns out = columns data" by (simp add: out deduplicate_def)
  have a: "\<forall>r \<in> set (rows data). \<exists>r0 \<in> set (rows data0). NA \<notin> set (row_cells data0 r0) \<and>
        r = put Timestamp (timestamp r) r0 \<and> timestamp r \<noteq> NA"
    using coerce_rows [OF co] by blast
  have b: "\<forall>r \<in> set (rows out). NA \<notin> set (row_cells out r)"
  proof
    fix r
    assume "r \<in> set (rows out)"
    with dd(1) have "r \<in> set (rows data)" by blast
    from coerce_no_NA [OF co this] show "NA \<notin> set (row_cells out r)"
      by (simp add: row_cells_def cols)
  qed
  have c: "\<exists>x y. quality_score r = Num x \<and> quality_score r' = Num y \<and> y \<le> x"
    if "r \<in> set (rows out)" and "r' \<in> set (rows data)" and "dedup_key r' = dedup_key r"
    for r r'
  proof -
    from that(1) dd(1) have r: "r \<in> set (rows data)" by blast
    from asserted_numbers(1) [OF assms(2) co as r] obtain x where x: "quality_score r = Num x"
      by (cases "quality_score r") simp_all
    from asserted_numbers(1) [OF assms(2) co as that(2)] obtain y
      where y: "quality_score r' = Num y"
      by (cases "quality_score r'") simp_all
    from dd(4) [OF that] x y show ?thesis by simp
  qed
  from co have e: "\<exists>d' cs'.
        to_datetime p (dtypes data0 Timestamp, map timestamp (rows (dropna data0))) =
          Inr (d', cs') \<and>
        rows data = filter (\<lambda>r. timestamp r \<noteq> NA)
          (map2 (put Timestamp) cs' (rows (dropna data0)))"
    by (rule coerce_Inr) blast
  from co e a b dd(2) dd(1) dd(3) c show ?thesis by blast
qed

theorem transform_data_dedup_witness:
  "sorts_descending demo \<and> float64_is_numeric demo \<and>
   transform_data demo sample_frame = Inr sample_cleaned \<and>
   (\<exists>data. coerce demo sample_frame = Inr data \<and>
      rows sample_cleaned =
        [cleaned_sample_row ''P1'' (237/2) ''mmHg'' 1705311000000000000 (9/10)] \<and>
      distinct (map dedup_key (rows sample_cleaned)) \<and>
      set (rows sample_cleaned) \<subseteq> set (rows data) \<and>
      dedup_key ` set (rows sample_cleaned) = dedup_key ` set (rows data))"
  using transform_data_dedup [OF demo_sorts_descending demo_float64_is_numeric transform_sample]
    demo_sorts_descending demo_float64_is_numeric transform_sample
  by (auto simp add: sample_cleaned_def cleaned_frame_def)

subsection \<open>The assertions fail the stage\<close>

lemma coerce_columns:
  assumes "coerce p data0 = Inr data"
  shows "columns data = columns data0"
  using assms by (rule coerce_Inr)

text \<open>
  C10: on a frame that has the eight columns, \<^verbatim>\<open>transform_data\<close> returns when lines 70 to
  77 leave the columns with exactly the asserted dtypes, and raises \<^verbatim>\<open>AssertionError\<close>
  when they leave any other dtype.  So it raises \<^verbatim>\<open>AssertionError\<close> when the timestamps
  parse to a datetime column that is not UTC (timezone-naive, or of another timezone)
  and \<^verbatim>\<open>convert_dtypes\<close> leaves datetime columns their dtype: the rows are not dropped,
  the stage fails.
\<close>

theorem transform_data_asserts:
  assumes "set all_columns \<subseteq> set (columns data0)"
  shows "transform_data p data0 =
      (case coerce p data0 of
         Inl e \<Rightarrow> Inl e
       | Inr data \<Rightarrow> if dtypes data = cleaned_dtypes then Inr (deduplicate p data)
                     else Inl AssertionError) \<and>
    (\<forall>d' cs'. keeps_datetime p \<and>
        to_datetime p (dtypes data0 Timestamp, map timestamp (rows (dropna data0))) =
          Inr (d', cs') \<and>
        length cs' = length (rows (dropna data0)) \<and> datetime d' \<and> d' \<noteq> DatetimeUTC \<longrightarrow>
      transform_data p data0 = Inl AssertionError)"
proof (intro conjI allI impI)
  show eq: "transform_data p data0 =
      (case coerce p data0 of
         Inl e \<Rightarrow> Inl e
       | Inr data \<Rightarrow> if dtypes data = cleaned_dtypes then Inr (deduplicate p data)
                     else Inl AssertionError)"
  proof (cases "coerce p data0")
    case (Inl e)
    then show ?thesis by (simp add: transform_data_def bnd_def)
  next
    case (Inr data)
    with assms have "set all_columns \<subseteq> set (columns data)"
      by (simp add: coerce_columns)
    from assert_dtypes_eq [OF this] Inr show ?thesis
      by (simp add: transform_data_def bnd_def)
  qed
  fix d' cs'
  assume a: "keeps_datetime p \<and>
        to_datetime p (dtypes data0 Timestamp, map timestamp (rows (dropna data0))) =
          Inr (d', cs') \<and>
        length cs' = length (rows (dropna data0)) \<and> datetime d' \<and> d' \<noteq> DatetimeUTC"
  from assms have ts: "Timestamp \<in> set (columns data0)" by (simp add: all_columns_def)
  then have g: "getitem (dropna data0) Timestamp =
      Inr (dtypes data0 Timestamp, map timestamp (rows (dropna data0)))"
    by (simp add: getitem_def dropna_def)
  from a g obtain data where co: "coerce p data0 = Inr data"
    by (simp add: coerce_def Let_def bnd_def setitem_def)
  from co obtain d'' cs'' where
    "to_datetime p (dtypes data0 Timestamp, map timestamp (rows (dropna data0))) = Inr (d'', cs'')"
    and "dtypes data = (\<lambda>c. convert_dtype p (if c = Timestamp then d'' else dtypes data0 c)
           (map (get c) (rows data)))"
    by (rule coerce_Inr)
  with a have "dtypes data Timestamp = convert_dtype p d' (map (get Timestamp) (rows data))"
    by simp
  with a have "dtypes data Timestamp = d'" by (simp add: keeps_datetime_def)
  with a have "dtypes data \<noteq> cleaned_dtypes" by (auto simp add: cleaned_dtypes_def)
  with eq co show "transform_data p data0 = Inl AssertionError" by simp
qed

lemma to_datetime_naive:
  "to_datetime demo (dtypes naive_frame Timestamp, map timestamp (rows (dropna naive_frame))) =
     Inr (DatetimeNaive, [Ts 1705311000000000000])"
  by (simp add: demo_defs dropna_def row_cells_def)

theorem transform_data_asserts_witness:
  "set all_columns \<subseteq> set (columns naive_frame) \<and> keeps_datetime demo \<and>
   to_datetime demo (dtypes naive_frame Timestamp, map timestamp (rows (dropna naive_frame))) =
     Inr (DatetimeNaive, [Ts 1705311000000000000]) \<and>
   length [Ts 1705311000000000000] = length (rows (dropna naive_frame)) \<and>
   datetime DatetimeNaive \<and> DatetimeNaive \<noteq> DatetimeUTC \<and>
   transform_data demo naive_frame = Inl AssertionError \<and>
   set all_columns \<subseteq> set (columns sample_frame) \<and>
   transform_data demo sample_frame = Inr sample_cleaned \<and>
   dtypes sample_cleaned = cleaned_dtypes"
proof -
  have c: "set all_columns \<subseteq> set (columns naive_frame)"
    and c': "set all_columns \<subseteq> set (columns sample_frame)"
    by (simp_all add: naive_frame_def sample_frame_def raw_frame_def)
  have l: "length [Ts 1705311000000000000] = length (rows (dropna naive_frame))"
    by (simp add: demo_defs dropna_def row_cells_def)
  have d: "datetime DatetimeNaive" by (simp add: datetime_def)
  from transform_data_asserts [OF c, of demo, THEN conjunct2, rule_format,
      of DatetimeNaive "[Ts 1705311000000000000]"]
    demo_keeps_datetime to_datetime_naive l d
  have "transform_data demo naive_frame = Inl AssertionError"
    by blast
  moreover note transform_sample
  ultimately show ?thesis
    using c c' demo_keeps_datetime to_datetime_naive l
    by (simp add: datetime_def sample_cleaned_def cleaned_frame_def)
qed

subsection \<open>Transforming the output again\<close>

lemma filter_all: "(\<And>x. x \<in> set xs \<Longrightarrow> P x) \<Longrightarrow> filter P xs = xs"
  by (simp add: filter_id_conv)

text \<open>A frame that has the eight columns with the asserted dtypes, no missing value, and
  numbers as values and quality scores passes lines 70 to 85 unchanged.\<close>

lemma coerce_cleaned:
  assumes "keeps_converted p"
    and "set all_columns \<subseteq> set (columns out)" and "dtypes out = cleaned_dtypes"
    and "\<And>r. r \<in> set (rows out) \<Longrightarrow> NA \<notin> set (row_cells out r)"
    and "\<And>r. r \<in> set (rows out) \<Longrightarrow> is_num (quality_score r) \<and> is_num (value' r)"
  shows "coerce p out = Inr out"
proof -
  have ts: "Timestamp \<in> set (columns out)"
    using assms(2) by (simp add: all_columns_def)
  have dn: "dropna out = out"
    by (simp add: dropna_def filter_all assms(4))
  have g: "getitem out Timestamp = Inr (DatetimeUTC, map timestamp (rows out))"
    using ts by (simp add: getitem_def assms(3) cleaned_dtypes_def)
  have td: "to_datetime p (DatetimeUTC, map timestamp (rows out)) =
      Inr (DatetimeUTC, map timestamp (rows out))"
    using assms(1) by (simp add: keeps_converted_def)
  have "(dtypes out)(Timestamp := DatetimeUTC) = dtypes out"
    by (simp add: assms(3) cleaned_dtypes_def fun_eq_iff)
  then have si: "setitem out Timestamp (DatetimeUTC, map timestamp (rows out)) = Inr out"
    using ts by (simp add: setitem_def map2_put_same del: put.simps)
  have "timestamp r \<noteq> NA" if "r \<in> set (rows out)" for r
    using assms(4) [OF that] ts by (auto simp add: row_cells_def image_iff)
  then have ds: "dropna_subset Timestamp out = out"
    by (simp add: dropna_subset_def filter_all)
  have "convert_dtype p (dtypes out c) (map (get c) (rows out)) = dtypes out c" for c
  proof (cases "c = Value \<or> c = QualityScore")
    case True
    then have "list_all is_num (map (get c) (rows out))"
      using assms(5) by (auto simp add: list_all_iff)
    with assms(1) True show ?thesis
      by (auto simp add: keeps_converted_def assms(3) cleaned_dtypes_def)
  next
    case False
    with assms(1) show ?thesis
      by (simp add: keeps_converted_def assms(3) cleaned_dtypes_def)
  qed
  then have cd: "convert_dtypes p out = out"
    by (simp add: convert_dtypes_def)
  show ?thesis
    by (simp add: coerce_def Let_def dn g td si ds cd bnd_Inr)
qed

text \<open>
  C4: when \<^verbatim>\<open>transform_data\<close> returns a record set, it returns on that record set too,
  with the same columns and dtypes and the same rows up to their order: none is dropped
  and none is removed as a duplicate.  The proof takes from pandas that the sort permutes
  the rows, that a \<^verbatim>\<open>Float64\<close> column holds numbers, and that \<^verbatim>\<open>to_datetime\<close> and
  \<^verbatim>\<open>convert_dtypes\<close> leave a column that already has its final dtype.
\<close>

theorem transform_data_idempotent:
  assumes "sorts_descending p" and "float64_is_numeric p" and "keeps_converted p"
    and "transform_data p data0 = Inr out"
  shows "\<exists>out'. transform_data p out = Inr out' \<and> mset (rows out') = mset (rows out) \<and>
    columns out' = columns out \<and> dtypes out' = dtypes out"
proof -
  from assms(4) obtain data where co: "coerce p data0 = Inr data"
    and as: "assert_dtypes data = Inr ()" and out: "out = deduplicate p data"
    by (rule transform_data_Inr)
  note dd = deduplicate_rows [OF assms(1), where data = data, folded out]
  have cols: "columns out = columns data" and dts: "dtypes out = dtypes data"
    by (simp_all add: out deduplicate_def)
  from as have all: "set all_columns \<subseteq> set (columns out)"
    and dt: "dtypes out = cleaned_dtypes"
    by (simp_all add: assert_dtypes_Inr cols dts)
  have na: "NA \<notin> set (row_cells out r)" if "r \<in> set (rows out)" for r
  proof -
    from that dd(1) have "r \<in> set (rows data)" by blast
    from coerce_no_NA [OF co this] show ?thesis by (simp add: row_cells_def cols)
  qed
  have num: "is_num (quality_score r) \<and> is_num (value' r)" if "r \<in> set (rows out)" for r
  proof -
    from that dd(1) have "r \<in> set (rows data)" by blast
    from asserted_numbers [OF assms(2) co as this] show ?thesis by simp
  qed
  have co': "coerce p out = Inr out"
    by (rule coerce_cleaned [OF assms(3) all dt na num])
  have as': "assert_dtypes out = Inr ()"
    by (simp add: assert_dtypes_Inr all dt)
  let ?xs = "sort_values p QualityScore False (rows out)"
  from assms(1) have m: "mset ?xs = mset (rows out)"
    by (simp add: sorts_descending_def)
  then have "mset (map dedup_key ?xs) = mset (map dedup_key (rows out))"
    by (metis mset_map)
  with dd(2) have "distinct (map dedup_key ?xs)"
    by (metis mset_eq_imp_distinct_iff)
  then have "drop_duplicates dedup_key ?xs = ?xs"
    by (rule drop_duplicates_distinct)
  then have "rows (deduplicate p out) = ?xs"
    by (simp add: deduplicate_def)
  with m have "mset (rows (deduplicate p out)) = mset (rows out)" by simp
  moreover have "transform_data p out = Inr (deduplicate p out)"
    by (simp add: transform_data_def co' as' bnd_Inr)
  moreover have "columns (deduplicate p out) = columns out"
    and "dtypes (deduplicate p out) = dtypes out"
    by (simp_all add: deduplicate_def)
  ultimately show ?thesis by blast
qed

theorem transform_data_idempotent_witness:
  "sorts_descending demo \<and> float64_is_numeric demo \<and> keeps_converted demo \<and>
   transform_data demo mixed_units_frame = Inr mixed_units_cleaned \<and>
   (\<exists>out'. transform_data demo mixed_units_cleaned = Inr out' \<and>
      mset (rows out') = mset (rows mixed_units_cleaned) \<and>
      columns out' = all_columns \<and> dtypes out' = cleaned_dtypes)"
  using transform_data_idempotent [OF demo_sorts_descending demo_float64_is_numeric
      demo_keeps_converted transform_mixed_units]
    demo_sorts_descending demo_float64_is_numeric demo_keeps_converted transform_mixed_units
  by (simp add: mixed_units_cleaned_def cleaned_frame_def)

end
